theory Spec2Isabelle
  imports Main "HOL-Library.Word"
begin

section \<open>Compile-time iteration: \<open>ForEach\<close> and \<open>ForEachTupleType\<close>\<close>

text \<open>
  A functor handed to \<open>ForEach\<close> is an object whose call operator template
  \<open>template <std::size_t I> bool operator()()\<close> may read and change the object. It is
  modelled as a function from the index and the object's state to the returned flag and
  the new state.
\<close>

type_synonym 's ForEachFunctor = "nat \<Rightarrow> 's \<Rightarrow> bool \<times> 's"

text \<open>
  \<open>ForEachImpl::Process<I>\<close> (and, under C++20, the lambda \<open>process\<close> of the same
  shape): \<open>if constexpr (I < N)\<close> invoke the functor at \<open>I\<close>, go on with \<open>I + 1\<close> when
  it returned true and return false otherwise; return true once \<open>I\<close> has reached \<open>N\<close>.
\<close>

function Process :: "nat \<Rightarrow> 's ForEachFunctor \<Rightarrow> nat \<Rightarrow> 's \<Rightarrow> bool \<times> 's" where
  "Process N functor I s =
     (if I < N
      then (case functor I s of
              (r, s') \<Rightarrow> if r then Process N functor (I + 1) s' else (False, s'))
      else (True, s))"
  by pat_completeness auto
termination
  by (relation "measure (\<lambda>(N, functor, I, s). N - I)") auto

declare Process.simps [simp del]

definition ForEach :: "nat \<Rightarrow> 's ForEachFunctor \<Rightarrow> 's \<Rightarrow> bool \<times> 's" where
  "ForEach N functor s = Process N functor 0 s"

text \<open>
  A functor for \<open>ForEachTupleType\<close> has the call operator
  \<open>template <std::size_t I, typename TupleElementT> bool operator()()\<close>. The tuple type
  is the list of its element types.
\<close>

type_synonym ('t, 's) ForEachTupleFunctor = "nat \<Rightarrow> 't \<Rightarrow> 's \<Rightarrow> bool \<times> 's"

text \<open>
  \<open>processTupleType\<close>: the functor that \<open>ForEachTupleType\<close> passes on to \<open>ForEach\<close>; at
  index \<open>I\<close> it invokes the user's functor with \<open>I\<close> and \<open>std::tuple_element_t<I, TupleT>\<close>.
\<close>

definition processTupleType :: "'t list \<Rightarrow> ('t, 's) ForEachTupleFunctor \<Rightarrow> 's ForEachFunctor" where
  "processTupleType TupleT functor I = functor I (TupleT ! I)"

definition ForEachTupleType :: "'t list \<Rightarrow> ('t, 's) ForEachTupleFunctor \<Rightarrow> 's \<Rightarrow> bool \<times> 's" where
  "ForEachTupleType TupleT functor s =
     (if length TupleT \<noteq> 0
      then ForEach (length TupleT) (processTupleType TupleT functor) s
      else (True, s))"

text \<open>
  Observation of the invocations: \<open>recording functor\<close> behaves as \<open>functor\<close> and appends
  the index of every invocation to a log kept beside the functor's own state;
  \<open>recordingTuple\<close> does the same with the pair of index and element type.
\<close>

definition recording :: "'s ForEachFunctor \<Rightarrow> ('s \<times> nat list) ForEachFunctor" where
  "recording functor I = (\<lambda>(s, calls).
     case functor I s of (r, s') \<Rightarrow> (r, (s', calls @ [I])))"

definition recordingTuple ::
  "('t, 's) ForEachTupleFunctor \<Rightarrow> ('t, 's \<times> (nat \<times> 't) list) ForEachTupleFunctor" where
  "recordingTuple functor I T = (\<lambda>(s, calls).
     case functor I T s of (r, s') \<Rightarrow> (r, (s', calls @ [(I, T)])))"

section \<open>Type-name extraction: \<open>TypeNameImpl\<close> and \<open>TypeName_v\<close>\<close>






















section \<open>C++ types\<close>

text \<open>
  The calling conventions of \<open>enum class CallingConvention\<close> (whose enumerator \<open>Variadic\<close>
  is another name of \<open>Cdecl\<close>; \<open>Regcall\<close> exists only where \<open>STDEXT_CC_REGCALL\<close> is
  defined) and the reference qualifiers of \<open>enum class RefQualifier\<close>, whose enumerator
  \<open>None\<close> is written \<open>NoRef\<close>.
\<close>

datatype CallingConvention = Cdecl | Stdcall | Fastcall | Vectorcall | Thiscall | Regcall

definition Variadic :: CallingConvention where
  "Variadic = Cdecl"

datatype RefQualifier = NoRef | LValue | RValue

text \<open>
  The types that the templates compute with. A class or fundamental type carries its
  \<open>const\<close> and \<open>volatile\<close> qualification, a pointer that of the pointer itself. A function
  type \<open>R CC (Args) const volatile & noexcept\<close> has its return type, the calling convention
  the compiler applies to it, its parameter types, whether it ends in the C ellipsis, its
  cv- and reference-qualifiers (present only on the type of a non-static member function)
  and whether it is \<open>noexcept\<close>. The parameter types stand as they are in the function
  type, that is after the language's adjustment of parameter declarations.
\<close>

datatype ctype =
    Void
  | Fundamental string bool bool
  | ClassType string bool bool
  | Function (ret: ctype) (conv: CallingConvention) (params: "ctype list") (ellipsis: bool)
             (fconst: bool) (fvolatile: bool) (fref: RefQualifier) (fnoexcept: bool)
  | Pointer ctype bool bool
  | MemberPointer string ctype bool bool
  | LValueReference ctype
  | RValueReference ctype

subsection \<open>The traits of \<open><type_traits>\<close> that the header uses\<close>

text \<open>
  These belong to the standard library, not to the header; each follows its definition in
  the language standard.
\<close>

fun remove_reference_t :: "ctype \<Rightarrow> ctype" where
  "remove_reference_t (LValueReference T) = T"
| "remove_reference_t (RValueReference T) = T"
| "remove_reference_t T = T"

fun remove_pointer_t :: "ctype \<Rightarrow> ctype" where
  "remove_pointer_t (Pointer T c v) = T"
| "remove_pointer_t T = T"

fun remove_cv_t :: "ctype \<Rightarrow> ctype" where
  "remove_cv_t (Fundamental n c v) = Fundamental n False False"
| "remove_cv_t (ClassType n c v) = ClassType n False False"
| "remove_cv_t (Pointer T c v) = Pointer T False False"
| "remove_cv_t (MemberPointer C T c v) = MemberPointer C T False False"
| "remove_cv_t T = T"

fun is_const_v :: "ctype \<Rightarrow> bool" where
  "is_const_v (Fundamental n c v) = c"
| "is_const_v (ClassType n c v) = c"
| "is_const_v (Pointer T c v) = c"
| "is_const_v (MemberPointer C T c v) = c"
| "is_const_v T = False"

fun is_volatile_v :: "ctype \<Rightarrow> bool" where
  "is_volatile_v (Fundamental n c v) = v"
| "is_volatile_v (ClassType n c v) = v"
| "is_volatile_v (Pointer T c v) = v"
| "is_volatile_v (MemberPointer C T c v) = v"
| "is_volatile_v T = False"

fun add_const_t :: "ctype \<Rightarrow> ctype" where
  "add_const_t (Fundamental n c v) = Fundamental n True v"
| "add_const_t (ClassType n c v) = ClassType n True v"
| "add_const_t (Pointer T c v) = Pointer T True v"
| "add_const_t (MemberPointer C T c v) = MemberPointer C T True v"
| "add_const_t T = T"

fun add_volatile_t :: "ctype \<Rightarrow> ctype" where
  "add_volatile_t (Fundamental n c v) = Fundamental n c True"
| "add_volatile_t (ClassType n c v) = ClassType n c True"
| "add_volatile_t (Pointer T c v) = Pointer T c True"
| "add_volatile_t (MemberPointer C T c v) = MemberPointer C T c True"
| "add_volatile_t T = T"

fun is_pointer_v :: "ctype \<Rightarrow> bool" where
  "is_pointer_v (Pointer T c v) = True"
| "is_pointer_v T = False"

fun is_lvalue_reference_v :: "ctype \<Rightarrow> bool" where
  "is_lvalue_reference_v (LValueReference T) = True"
| "is_lvalue_reference_v T = False"

fun is_rvalue_reference_v :: "ctype \<Rightarrow> bool" where
  "is_rvalue_reference_v (RValueReference T) = True"
| "is_rvalue_reference_v T = False"

definition is_reference_v :: "ctype \<Rightarrow> bool" where
  "is_reference_v T = (is_lvalue_reference_v T \<or> is_rvalue_reference_v T)"

fun is_function_v :: "ctype \<Rightarrow> bool" where
  "is_function_v (Function R cc Args e c v r n) = True"
| "is_function_v T = False"

fun is_member_function_pointer_v :: "ctype \<Rightarrow> bool" where
  "is_member_function_pointer_v (MemberPointer C T c v) = is_function_v T"
| "is_member_function_pointer_v T = False"

fun is_void_v :: "ctype \<Rightarrow> bool" where
  "is_void_v Void = True"
| "is_void_v T = False"

text \<open>
  A function type with a cv- or reference-qualifier (an "abominable" function type)
  admits neither a pointer nor a reference to it; neither does \<open>void\<close> admit a reference.
\<close>

fun is_abominable :: "ctype \<Rightarrow> bool" where
  "is_abominable (Function R cc Args e c v r n) = (c \<or> v \<or> r \<noteq> NoRef)"
| "is_abominable T = False"

definition is_referenceable :: "ctype \<Rightarrow> bool" where
  "is_referenceable T = (\<not> is_void_v T \<and> \<not> is_abominable T)"

definition add_pointer_t :: "ctype \<Rightarrow> ctype" where
  "add_pointer_t T =
     (if is_referenceable T \<or> is_void_v T then Pointer (remove_reference_t T) False False else T)"

fun add_lvalue_reference_t :: "ctype \<Rightarrow> ctype" where
  "add_lvalue_reference_t (LValueReference T) = LValueReference T"
| "add_lvalue_reference_t (RValueReference T) = LValueReference T"
| "add_lvalue_reference_t T = (if is_referenceable T then LValueReference T else T)"

fun add_rvalue_reference_t :: "ctype \<Rightarrow> ctype" where
  "add_rvalue_reference_t (LValueReference T) = LValueReference T"
| "add_rvalue_reference_t (RValueReference T) = RValueReference T"
| "add_rvalue_reference_t T = (if is_referenceable T then RValueReference T else T)"

definition conditional_t :: "bool \<Rightarrow> 'a \<Rightarrow> 'a \<Rightarrow> 'a" where
  "conditional_t B T F = (if B then T else F)"

text \<open>\<open>std::tuple_element_t<I, std::tuple<Ts...>>\<close>: ill-formed when \<open>I\<close> is out of range.\<close>

definition tuple_element_t :: "nat \<Rightarrow> 'a list \<Rightarrow> 'a option" where
  "tuple_element_t I Ts = (if I < length Ts then Some (Ts ! I) else None)"

text \<open>
  The declarator \<open>T *\<close>: ill-formed (a substitution failure) when \<open>T\<close> is a reference or
  an abominable function type.
\<close>

definition pointer_to :: "ctype \<Rightarrow> ctype option" where
  "pointer_to T = (if is_reference_v T \<or> is_abominable T then None else Some (Pointer T False False))"

subsection \<open>Classes and their call operators\<close>

text \<open>
  What the program declares: for each class name, its \<open>operator()\<close> members, each either
  a plain member function of the given function type or a member template.
  \<open>decltype(&T::operator())\<close> is well-formed exactly when \<open>T\<close> is a class with a single
  \<open>operator()\<close> that is not a template; it is then the pointer to that member.
\<close>

datatype call_operator = CallOperator ctype | CallOperatorTemplate

type_synonym classes = "string \<Rightarrow> call_operator list"

fun address_of_call_operator :: "classes \<Rightarrow> ctype \<Rightarrow> ctype option" where
  "address_of_call_operator decls (ClassType n c v) =
     (case decls n of
        [CallOperator f] \<Rightarrow> Some (MemberPointer n f False False)
      | _ \<Rightarrow> None)"
| "address_of_call_operator decls T = None"

section \<open>Helper aliases and predicates of the header\<close>

definition RemoveRefAndPtr :: "ctype \<Rightarrow> ctype" where
  "RemoveRefAndPtr T = remove_pointer_t (remove_reference_t T)"

definition RemoveRefAndPtrAndCv :: "ctype \<Rightarrow> ctype" where
  "RemoveRefAndPtrAndCv T = remove_cv_t (RemoveRefAndPtr T)"

text \<open>
  \<open>ReplaceNthType<N, NewT, Ts...>\<close>: the \<open>static_assert(N < sizeof...(Ts))\<close>, then the tuple
  \<open>std::tuple<std::conditional_t<Ints == N, NewT, Ts>...>\<close> over the indices
  \<open>std::index_sequence_for<Ts...>\<close>. A tuple type is the list of its element types.
\<close>

definition ReplaceNthType :: "nat \<Rightarrow> 'a \<Rightarrow> 'a list \<Rightarrow> 'a list option" where
  "ReplaceNthType N NewT Ts =
     (if N < length Ts
      then Some (map (\<lambda>(Ints, T). conditional_t (Ints = N) NewT T) (zip [0..<length Ts] Ts))
      else None)"

text \<open>
  \<open>Private::IsFreeFunction\<close>: \<open>std::is_function_v<std::remove_pointer_t<T *>>\<close>, false when
  \<open>T *\<close> cannot be formed.
\<close>

definition Private_IsFreeFunction :: "ctype \<Rightarrow> bool" where
  "Private_IsFreeFunction T =
     (case pointer_to T of None \<Rightarrow> False | Some p \<Rightarrow> is_function_v (remove_pointer_t p))"

text \<open>\<open>Private::IsFunctor\<close>: whether \<open>decltype(&std::remove_reference_t<T>::operator())\<close> is well-formed.\<close>

definition Private_IsFunctor :: "classes \<Rightarrow> ctype \<Rightarrow> bool" where
  "Private_IsFunctor decls T = (address_of_call_operator decls (remove_reference_t T) \<noteq> None)"

definition IsTraitsFunction :: "classes \<Rightarrow> ctype \<Rightarrow> bool" where
  "IsTraitsFunction decls T =
     (Private_IsFreeFunction (RemoveRefAndPtr T) \<or>
      is_member_function_pointer_v (remove_reference_t T) \<or>
      Private_IsFunctor decls T)"

section \<open>Calling conventions on the target\<close>

text \<open>
  The compiler is not part of the header. As the header's comments describe it, a
  compiler keeps a calling convention on a function type or replaces it by \<open>cdecl\<close>,
  according to the target; \<open>cdecl\<close> itself is always kept. A target lists the conventions it
  keeps on free functions and on non-static member functions, and says whether the macro
  \<open>STDEXT_CC_REGCALL\<close> is defined (Intel only).
\<close>

record target =
  free_conventions :: "CallingConvention list"
  member_conventions :: "CallingConvention list"
  STDEXT_CC_REGCALL :: bool

definition STDEXT_CC_VARIADIC :: CallingConvention where
  "STDEXT_CC_VARIADIC = Cdecl"

text \<open>
  The type expressions of the macros: \<open>R CC (Args...) noexcept(IS_NOEXCEPT)\<close>, with or
  without the ellipsis, and \<open>R (CC C::*)(Args...) CONST VOLATILE REF noexcept(IS_NOEXCEPT)\<close>,
  where \<open>CC\<close> is one of the macros \<open>STDEXT_CC_CDECL\<close>, ..., named by its convention.
\<close>

definition free_function_type ::
  "target \<Rightarrow> ctype \<Rightarrow> CallingConvention \<Rightarrow> ctype list \<Rightarrow> bool \<Rightarrow> bool \<Rightarrow> ctype" where
  "free_function_type tg R CC Args e n =
     Function R (if CC \<in> set (free_conventions tg) then CC else Cdecl) Args e False False NoRef n"

definition member_function_pointer_type ::
  "target \<Rightarrow> ctype \<Rightarrow> CallingConvention \<Rightarrow> string \<Rightarrow> ctype list \<Rightarrow> bool \<Rightarrow> bool \<Rightarrow> bool
     \<Rightarrow> RefQualifier \<Rightarrow> bool \<Rightarrow> ctype" where
  "member_function_pointer_type tg R CC C Args e c v r n =
     MemberPointer C
       (Function R (if CC \<in> set (member_conventions tg) then CC else Cdecl) Args e c v r n)
       False False"

text \<open>
  A declarator written from template arguments that a user hands in, such as
  \<open>R CC (NewArgsT...)\<close> or \<open>NewReturnTypeT CC (Args...)\<close>, is read by the language: the
  type of each parameter is adjusted (its top-level cv-qualifiers are dropped, and a
  function type becomes the pointer to it), and the declarator is ill-formed (\<open>None\<close>)
  when a parameter has the type \<open>void\<close>, which is a dependent type there, or when the
  return type is a function type. The types \<open>R\<close> and \<open>Args...\<close> that a specialization
  has deduced from a function type are such types already.
\<close>

definition parameter_type :: "ctype \<Rightarrow> ctype option" where
  "parameter_type T =
     (if is_void_v T then None
      else if is_function_v T then pointer_to T
      else Some (remove_cv_t T))"

fun parameter_types :: "ctype list \<Rightarrow> ctype list option" where
  "parameter_types [] = Some []"
| "parameter_types (T # Ts) =
     (case parameter_type T of
        None \<Rightarrow> None
      | Some P \<Rightarrow> map_option ((#) P) (parameter_types Ts))"

definition declared_return_type :: "ctype \<Rightarrow> ctype option" where
  "declared_return_type R = (if is_function_v R then None else Some R)"

text \<open>
  \<open>CallingConventionReplacedWithCdecl<CallingConventionT, IsFreeFuncT>()\<close>, with the two
  definitions of the macro \<open>IS_REPLACED_WITH_CDECL\<close>. The chain of \<open>if constexpr\<close> ends
  without a \<open>return\<close> when no branch applies (\<open>None\<close>).
\<close>

definition IS_REPLACED_WITH_CDECL_free :: "target \<Rightarrow> CallingConvention \<Rightarrow> bool" where
  "IS_REPLACED_WITH_CDECL_free tg CC =
     (free_function_type tg Void CC [] False False = free_function_type tg Void Cdecl [] False False)"

definition IS_REPLACED_WITH_CDECL_member :: "target \<Rightarrow> CallingConvention \<Rightarrow> bool" where
  "IS_REPLACED_WITH_CDECL_member tg CC =
     (member_function_pointer_type tg Void CC ''AnyClass'' [] False False False NoRef False
      = member_function_pointer_type tg Void Cdecl ''AnyClass'' [] False False False NoRef False)"

definition CallingConventionReplacedWithCdecl ::
  "target \<Rightarrow> CallingConvention \<Rightarrow> bool \<Rightarrow> bool option" where
  "CallingConventionReplacedWithCdecl tg CallingConventionT IsFreeFuncT =
     (if IsFreeFuncT
      then (if CallingConventionT = Cdecl then Some False
            else if CallingConventionT = Stdcall then Some (IS_REPLACED_WITH_CDECL_free tg Stdcall)
            else if CallingConventionT = Fastcall then Some (IS_REPLACED_WITH_CDECL_free tg Fastcall)
            else if CallingConventionT = Vectorcall then Some (IS_REPLACED_WITH_CDECL_free tg Vectorcall)
            else if STDEXT_CC_REGCALL tg then Some (IS_REPLACED_WITH_CDECL_free tg Regcall)
            else None)
      else (if CallingConventionT = Cdecl then Some False
            else if CallingConventionT = Stdcall then Some (IS_REPLACED_WITH_CDECL_member tg Stdcall)
            else if CallingConventionT = Fastcall then Some (IS_REPLACED_WITH_CDECL_member tg Fastcall)
            else if CallingConventionT = Vectorcall then Some (IS_REPLACED_WITH_CDECL_member tg Vectorcall)
            else if CallingConventionT = Thiscall then Some (IS_REPLACED_WITH_CDECL_member tg Thiscall)
            else if STDEXT_CC_REGCALL tg then Some (IS_REPLACED_WITH_CDECL_member tg Regcall)
            else None))"

text \<open>The value of an enumerator, \<open>static_cast<std::size_t>(NewCallingConventionT)\<close>.\<close>

fun enumerator_value :: "CallingConvention \<Rightarrow> nat" where
  "enumerator_value Cdecl = 0"
| "enumerator_value Stdcall = 1"
| "enumerator_value Fastcall = 2"
| "enumerator_value Vectorcall = 3"
| "enumerator_value Thiscall = 4"
| "enumerator_value Regcall = 5"

section \<open>\<open>FunctionTraitsHelper\<close> and \<open>FunctionTraitsBase\<close>\<close>

definition MigrateConst :: "ctype \<Rightarrow> ctype \<Rightarrow> ctype" where
  "MigrateConst F1 F2 = conditional_t (is_const_v (remove_reference_t F1)) (add_const_t F2) F2"

definition MigrateVolatile :: "ctype \<Rightarrow> ctype \<Rightarrow> ctype" where
  "MigrateVolatile F1 F2 = conditional_t (is_volatile_v (remove_reference_t F1)) (add_volatile_t F2) F2"

definition MigrateCv :: "ctype \<Rightarrow> ctype \<Rightarrow> ctype" where
  "MigrateCv F1 F2 = MigrateVolatile F1 (MigrateConst F1 F2)"

definition MigrateRef :: "ctype \<Rightarrow> ctype \<Rightarrow> ctype" where
  "MigrateRef F1 F2 =
     conditional_t (is_lvalue_reference_v F1) (add_lvalue_reference_t F2)
       (conditional_t (is_rvalue_reference_v F1) (add_rvalue_reference_t F2) F2)"

definition MigratePointerAndRef :: "ctype \<Rightarrow> ctype \<Rightarrow> ctype" where
  "MigratePointerAndRef F1 F2 =
     MigrateRef F1
       (conditional_t (is_pointer_v (remove_reference_t F1)) (MigrateCv F1 (add_pointer_t F2)) F2)"

definition MigrateCvAndRef :: "ctype \<Rightarrow> ctype \<Rightarrow> ctype" where
  "MigrateCvAndRef F1 F2 = MigrateRef F1 (MigrateCv F1 F2)"

text \<open>The read traits: the members of \<open>FunctionTraitsBase\<close>.\<close>

record FunctionTraitsBase =
  Type :: ctype
  ReturnType :: ctype
  CallingConvention :: CallingConvention
  IsVariadic :: bool
  Class :: ctype
  IsConst :: bool
  IsVolatile :: bool
  RefQualifier :: RefQualifier
  IsNoexcept :: bool
  ArgTypes :: "ctype list"
  IsFunctor :: bool

definition ArgCount :: "FunctionTraitsBase \<Rightarrow> nat" where
  "ArgCount b = length (ArgTypes b)"

text \<open>\<open>Args<I>::Type\<close>, behind its \<open>static_assert(I < ArgCount)\<close>.\<close>

definition Args_Type :: "FunctionTraitsBase \<Rightarrow> nat \<Rightarrow> ctype option" where
  "Args_Type b I = (if I < ArgCount b then tuple_element_t I (ArgTypes b) else None)"

definition IsMemberFunction :: "FunctionTraitsBase \<Rightarrow> bool" where
  "IsMemberFunction b = (\<not> is_void_v (Class b))"

definition IsFreeFunction :: "FunctionTraitsBase \<Rightarrow> bool" where
  "IsFreeFunction b = (\<not> IsMemberFunction b)"

section \<open>The partial specializations made by the macros\<close>

text \<open>
  The operator \<open>#X\<close> turns a macro argument into a string literal; \<open>#X[i]\<close> is its
  character at \<open>i\<close>, the terminating \<open>'\0'\<close> at the index of its length.
\<close>

definition stringized_at :: "string \<Rightarrow> nat \<Rightarrow> char" where
  "stringized_at X i = (if i < length X then X ! i else CHR 0x00)"

text \<open>
  What the macro arguments mean where they stand in a type expression: \<open>ARGS\<close> is
  \<open>(Args...)\<close> or \<open>(Args..., ...)\<close>, \<open>CONST\<close> is \<open>const\<close> or empty, \<open>VOLATILE\<close> is
  \<open>volatile\<close> or empty, \<open>REF\<close> is \<open>&\<close>, \<open>&&\<close> or empty.
\<close>

definition declares_ellipsis :: "string \<Rightarrow> bool" where
  "declares_ellipsis ARGS = (ARGS = ''(Args..., ...)'')"

definition declares_const :: "string \<Rightarrow> bool" where
  "declares_const CONST_QUAL = (CONST_QUAL = ''const'')"

definition declares_volatile :: "string \<Rightarrow> bool" where
  "declares_volatile VOLATILE = (VOLATILE = ''volatile'')"

definition declares_ref :: "string \<Rightarrow> RefQualifier" where
  "declares_ref REF = (if REF = ''&'' then LValue else if REF = ''&&'' then RValue else NoRef)"

text \<open>
  One partial specialization: the arguments of the macro call that made it, and which
  definition of the macro \<open>REPLACE_CALLING_CONVENTION\<close> was in force there (the one
  through \<open>std::tuple_element_t\<close>, or the one for variadic functions). The specializations
  of \<open>FreeFunctionTraits\<close> have no \<open>CONST\<close>, \<open>VOLATILE\<close> and \<open>REF\<close>; these are left empty.
\<close>

datatype replace_macro = TupleElement | VariadicOnly

record specialization =
  macro_CC :: CallingConvention
  macro_CALLING_CONVENTION :: CallingConvention
  macro_ARGS :: string
  macro_CONST :: string
  macro_VOLATILE :: string
  macro_REF :: string
  macro_IS_NOEXCEPT :: bool
  macro_REPLACE_CALLING_CONVENTION :: replace_macro

definition MAKE_FREE_FUNC_TRAITS_2 ::
  "replace_macro \<Rightarrow> CallingConvention \<Rightarrow> CallingConvention \<Rightarrow> string \<Rightarrow> bool \<Rightarrow> specialization list" where
  "MAKE_FREE_FUNC_TRAITS_2 rm CC CALLING_CONVENTION ARGS IS_NOEXCEPT =
     [\<lparr>macro_CC = CC, macro_CALLING_CONVENTION = CALLING_CONVENTION, macro_ARGS = ARGS,
       macro_CONST = [], macro_VOLATILE = [], macro_REF = [],
       macro_IS_NOEXCEPT = IS_NOEXCEPT, macro_REPLACE_CALLING_CONVENTION = rm\<rparr>]"

definition MAKE_FREE_FUNC_TRAITS_1 ::
  "replace_macro \<Rightarrow> CallingConvention \<Rightarrow> CallingConvention \<Rightarrow> string \<Rightarrow> specialization list" where
  "MAKE_FREE_FUNC_TRAITS_1 rm CC CALLING_CONVENTION ARGS =
     MAKE_FREE_FUNC_TRAITS_2 rm CC CALLING_CONVENTION ARGS False @
     MAKE_FREE_FUNC_TRAITS_2 rm CC CALLING_CONVENTION ARGS True"

definition MAKE_FREE_FUNC_TRAITS_NON_VARIADIC ::
  "CallingConvention \<Rightarrow> CallingConvention \<Rightarrow> specialization list" where
  "MAKE_FREE_FUNC_TRAITS_NON_VARIADIC CC CALLING_CONVENTION =
     MAKE_FREE_FUNC_TRAITS_1 TupleElement CC CALLING_CONVENTION ''(Args...)''"

definition FreeFunctionTraits_specializations :: "target \<Rightarrow> specialization list" where
  "FreeFunctionTraits_specializations tg =
     MAKE_FREE_FUNC_TRAITS_NON_VARIADIC Cdecl Cdecl @
     MAKE_FREE_FUNC_TRAITS_NON_VARIADIC Stdcall Stdcall @
     MAKE_FREE_FUNC_TRAITS_NON_VARIADIC Fastcall Fastcall @
     MAKE_FREE_FUNC_TRAITS_NON_VARIADIC Vectorcall Vectorcall @
     (if STDEXT_CC_REGCALL tg then MAKE_FREE_FUNC_TRAITS_NON_VARIADIC Regcall Regcall else []) @
     MAKE_FREE_FUNC_TRAITS_1 VariadicOnly STDEXT_CC_VARIADIC Variadic ''(Args..., ...)''"

definition MAKE_MEMBER_FUNC_TRAITS_5 ::
  "replace_macro \<Rightarrow> CallingConvention \<Rightarrow> CallingConvention \<Rightarrow> string \<Rightarrow> string \<Rightarrow> string \<Rightarrow> string
     \<Rightarrow> bool \<Rightarrow> specialization list" where
  "MAKE_MEMBER_FUNC_TRAITS_5 rm CC CALLING_CONVENTION ARGS CONST_QUAL VOLATILE REF IS_NOEXCEPT =
     [\<lparr>macro_CC = CC, macro_CALLING_CONVENTION = CALLING_CONVENTION, macro_ARGS = ARGS,
       macro_CONST = CONST_QUAL, macro_VOLATILE = VOLATILE, macro_REF = REF,
       macro_IS_NOEXCEPT = IS_NOEXCEPT, macro_REPLACE_CALLING_CONVENTION = rm\<rparr>]"

definition MAKE_MEMBER_FUNC_TRAITS_4 ::
  "replace_macro \<Rightarrow> CallingConvention \<Rightarrow> CallingConvention \<Rightarrow> string \<Rightarrow> string \<Rightarrow> string \<Rightarrow> string
     \<Rightarrow> specialization list" where
  "MAKE_MEMBER_FUNC_TRAITS_4 rm CC CALLING_CONVENTION ARGS REF VOLATILE CONST_QUAL =
     MAKE_MEMBER_FUNC_TRAITS_5 rm CC CALLING_CONVENTION ARGS CONST_QUAL VOLATILE REF True @
     MAKE_MEMBER_FUNC_TRAITS_5 rm CC CALLING_CONVENTION ARGS CONST_QUAL VOLATILE REF False"

definition MAKE_MEMBER_FUNC_TRAITS_3 ::
  "replace_macro \<Rightarrow> CallingConvention \<Rightarrow> CallingConvention \<Rightarrow> string \<Rightarrow> string \<Rightarrow> string
     \<Rightarrow> specialization list" where
  "MAKE_MEMBER_FUNC_TRAITS_3 rm CC CALLING_CONVENTION ARGS REF VOLATILE =
     MAKE_MEMBER_FUNC_TRAITS_4 rm CC CALLING_CONVENTION ARGS REF VOLATILE ''const'' @
     MAKE_MEMBER_FUNC_TRAITS_4 rm CC CALLING_CONVENTION ARGS REF VOLATILE []"

definition MAKE_MEMBER_FUNC_TRAITS_2 ::
  "replace_macro \<Rightarrow> CallingConvention \<Rightarrow> CallingConvention \<Rightarrow> string \<Rightarrow> string
     \<Rightarrow> specialization list" where
  "MAKE_MEMBER_FUNC_TRAITS_2 rm CC CALLING_CONVENTION ARGS REF =
     MAKE_MEMBER_FUNC_TRAITS_3 rm CC CALLING_CONVENTION ARGS REF [] @
     MAKE_MEMBER_FUNC_TRAITS_3 rm CC CALLING_CONVENTION ARGS REF ''volatile''"

definition MAKE_MEMBER_FUNC_TRAITS_1 ::
  "replace_macro \<Rightarrow> CallingConvention \<Rightarrow> CallingConvention \<Rightarrow> string \<Rightarrow> specialization list" where
  "MAKE_MEMBER_FUNC_TRAITS_1 rm CC CALLING_CONVENTION ARGS =
     MAKE_MEMBER_FUNC_TRAITS_2 rm CC CALLING_CONVENTION ARGS [] @
     MAKE_MEMBER_FUNC_TRAITS_2 rm CC CALLING_CONVENTION ARGS ''&'' @
     MAKE_MEMBER_FUNC_TRAITS_2 rm CC CALLING_CONVENTION ARGS ''&&''"

definition MAKE_MEMBER_FUNC_TRAITS_NON_VARIADIC ::
  "CallingConvention \<Rightarrow> CallingConvention \<Rightarrow> specialization list" where
  "MAKE_MEMBER_FUNC_TRAITS_NON_VARIADIC CC CALLING_CONVENTION =
     MAKE_MEMBER_FUNC_TRAITS_1 TupleElement CC CALLING_CONVENTION ''(Args...)''"

definition MemberFunctionTraits_specializations :: "target \<Rightarrow> specialization list" where
  "MemberFunctionTraits_specializations tg =
     MAKE_MEMBER_FUNC_TRAITS_NON_VARIADIC Cdecl Cdecl @
     MAKE_MEMBER_FUNC_TRAITS_NON_VARIADIC Thiscall Thiscall @
     MAKE_MEMBER_FUNC_TRAITS_NON_VARIADIC Stdcall Stdcall @
     MAKE_MEMBER_FUNC_TRAITS_NON_VARIADIC Fastcall Fastcall @
     MAKE_MEMBER_FUNC_TRAITS_NON_VARIADIC Vectorcall Vectorcall @
     (if STDEXT_CC_REGCALL tg then MAKE_MEMBER_FUNC_TRAITS_NON_VARIADIC Regcall Regcall else []) @
     MAKE_MEMBER_FUNC_TRAITS_1 VariadicOnly STDEXT_CC_VARIADIC Variadic ''(Args..., ...)''"

text \<open>
  An instantiated specialization of \<open>FreeFunctionTraits\<close> or \<open>MemberFunctionTraits\<close>: its
  base class, its template arguments \<open>F\<close>, \<open>R\<close>, \<open>C\<close> (member functions only) and \<open>Args\<close>, the
  specialization it stems from, and whether it is one of \<open>MemberFunctionTraits\<close>.
\<close>

record traits =
  base :: FunctionTraitsBase
  arg_F :: ctype
  arg_R :: ctype
  arg_C :: string
  arg_Args :: "ctype list"
  spec :: specialization
  of_member :: bool

text \<open>The two definitions of the macro \<open>FUNCTION_TRAITS_BASE_CLASS\<close>.\<close>

definition FUNCTION_TRAITS_BASE_CLASS_free ::
  "ctype \<Rightarrow> ctype \<Rightarrow> ctype list \<Rightarrow> CallingConvention \<Rightarrow> string \<Rightarrow> bool \<Rightarrow> FunctionTraitsBase" where
  "FUNCTION_TRAITS_BASE_CLASS_free F R Args CALLING_CONVENTION ARGS IS_NOEXCEPT =
     \<lparr>Type = F, ReturnType = R, CallingConvention = CALLING_CONVENTION,
      IsVariadic = (stringized_at ARGS 9 \<noteq> CHR 0x00),
      Class = Void, IsConst = False, IsVolatile = False, RefQualifier = NoRef,
      IsNoexcept = IS_NOEXCEPT, ArgTypes = Args, IsFunctor = False\<rparr>"

definition FUNCTION_TRAITS_BASE_CLASS_member ::
  "ctype \<Rightarrow> ctype \<Rightarrow> string \<Rightarrow> ctype list \<Rightarrow> CallingConvention \<Rightarrow> string \<Rightarrow> string \<Rightarrow> string \<Rightarrow> string
     \<Rightarrow> bool \<Rightarrow> FunctionTraitsBase" where
  "FUNCTION_TRAITS_BASE_CLASS_member F R C Args CALLING_CONVENTION ARGS CONST_QUAL VOLATILE REF IS_NOEXCEPT =
     \<lparr>Type = F, ReturnType = R, CallingConvention = CALLING_CONVENTION,
      IsVariadic = (stringized_at ARGS 9 \<noteq> CHR 0x00),
      Class = ClassType C False False,
      IsConst = (stringized_at CONST_QUAL 0 \<noteq> CHR 0x00),
      IsVolatile = (stringized_at VOLATILE 0 \<noteq> CHR 0x00),
      RefQualifier = (if stringized_at REF 0 = CHR 0x00 then NoRef
                      else (if stringized_at REF 1 = CHR 0x00 then LValue else RValue)),
      IsNoexcept = IS_NOEXCEPT, ArgTypes = Args, IsFunctor = False\<rparr>"

text \<open>
  A specialization is chosen for the second template argument \<open>G\<close> when its pattern, with
  \<open>R\<close>, \<open>C\<close> and \<open>Args\<close> deduced from \<open>G\<close>, is the type \<open>G\<close> and its \<open>std::enable_if_t\<close>
  condition holds.
\<close>

definition free_specialization_matches :: "target \<Rightarrow> ctype \<Rightarrow> specialization \<Rightarrow> bool" where
  "free_specialization_matches tg G s =
     (is_function_v G \<and>
      CallingConventionReplacedWithCdecl tg (macro_CALLING_CONVENTION s) True = Some False \<and>
      free_function_type tg (ret G) (macro_CC s) (params G)
        (declares_ellipsis (macro_ARGS s)) (macro_IS_NOEXCEPT s) = G)"

fun member_specialization_matches :: "target \<Rightarrow> ctype \<Rightarrow> specialization \<Rightarrow> bool" where
  "member_specialization_matches tg (MemberPointer C f pc pv) s =
     (is_function_v f \<and>
      CallingConventionReplacedWithCdecl tg (macro_CALLING_CONVENTION s) False = Some False \<and>
      member_function_pointer_type tg (ret f) (macro_CC s) C (params f)
        (declares_ellipsis (macro_ARGS s)) (declares_const (macro_CONST s))
        (declares_volatile (macro_VOLATILE s)) (declares_ref (macro_REF s)) (macro_IS_NOEXCEPT s)
      = MemberPointer C f pc pv)"
| "member_specialization_matches tg G s = False"

text \<open>
  \<open>FreeFunctionTraits<F, G>\<close> and \<open>MemberFunctionTraits<F, G>\<close>: the one specialization that
  is chosen. With none the primary template is taken, which has no members; with several
  the instantiation is ambiguous.
\<close>

definition FreeFunctionTraits :: "target \<Rightarrow> ctype \<Rightarrow> ctype \<Rightarrow> traits option" where
  "FreeFunctionTraits tg F G =
     (case filter (free_specialization_matches tg G) (FreeFunctionTraits_specializations tg) of
        [s] \<Rightarrow> Some \<lparr>base = FUNCTION_TRAITS_BASE_CLASS_free F (ret G) (params G)
                              (macro_CALLING_CONVENTION s) (macro_ARGS s) (macro_IS_NOEXCEPT s),
                     arg_F = F, arg_R = ret G, arg_C = [], arg_Args = params G,
                     spec = s, of_member = False\<rparr>
      | _ \<Rightarrow> None)"

fun MemberFunctionTraits :: "target \<Rightarrow> ctype \<Rightarrow> ctype \<Rightarrow> traits option" where
  "MemberFunctionTraits tg F (MemberPointer C f pc pv) =
     (case filter (member_specialization_matches tg (MemberPointer C f pc pv))
             (MemberFunctionTraits_specializations tg) of
        [s] \<Rightarrow> Some \<lparr>base = FUNCTION_TRAITS_BASE_CLASS_member F (ret f) C (params f)
                              (macro_CALLING_CONVENTION s) (macro_ARGS s) (macro_CONST s)
                              (macro_VOLATILE s) (macro_REF s) (macro_IS_NOEXCEPT s),
                     arg_F = F, arg_R = ret f, arg_C = C, arg_Args = params f,
                     spec = s, of_member = True\<rparr>
      | _ \<Rightarrow> None)"
| "MemberFunctionTraits tg F G = None"

text \<open>
  \<open>FunctorTraits<F>\<close> derives from \<open>MemberFunctionTraits\<close> at \<open>decltype(&F::operator())\<close>,
  asserts that \<open>F\<close> is no reference, and overrides \<open>IsFunctor\<close>.
\<close>

definition FunctorTraits :: "target \<Rightarrow> classes \<Rightarrow> ctype \<Rightarrow> traits option" where
  "FunctorTraits tg decls F =
     (case address_of_call_operator decls F of
        None \<Rightarrow> None
      | Some pmf \<Rightarrow>
          (case MemberFunctionTraits tg pmf pmf of
             None \<Rightarrow> None
           | Some t \<Rightarrow>
               if is_reference_v F then None
               else Some (t\<lparr>base := (base t)\<lparr>IsFunctor := True\<rparr>\<rparr>)))"

text \<open>
  \<open>FunctionTraits<F>\<close>: its three partial specializations, each enabled by its
  \<open>std::enable_if_t\<close> condition, on \<open>F\<close> and \<open>RemoveRefAndPtrAndCv<F>\<close>. With none enabled the
  primary template's \<open>static_assert\<close> fires.
\<close>

definition FunctionTraits :: "target \<Rightarrow> classes \<Rightarrow> ctype \<Rightarrow> traits option" where
  "FunctionTraits tg decls F =
     (let F_RemoveRefAndPtrAndCv = RemoveRefAndPtrAndCv F in
      case (if Private_IsFreeFunction F_RemoveRefAndPtrAndCv
            then [FreeFunctionTraits tg F F_RemoveRefAndPtrAndCv] else []) @
           (if is_member_function_pointer_v F_RemoveRefAndPtrAndCv
            then [MemberFunctionTraits tg F F_RemoveRefAndPtrAndCv] else []) @
           (if Private_IsFunctor decls F
            then [FunctorTraits tg decls F_RemoveRefAndPtrAndCv] else []) of
        [t] \<Rightarrow> t
      | _ \<Rightarrow> None)"

section \<open>The write traits\<close>

text \<open>
  The member aliases of a specialization by which a changed function type is requested,
  with their template arguments. A tuple of types is the list of its element types.
\<close>

datatype write_trait =
    AddVariadicArgs
  | RemoveVariadicArgs
  | AddConst
  | RemoveConst
  | AddVolatile
  | RemoveVolatile
  | AddCV
  | RemoveCV
  | AddLValueReference
  | AddRValueReference
  | RemoveReference
  | AddNoexcept
  | RemoveNoexcept
  | ReplaceCallingConvention CallingConvention
  | ReplaceClass string
  | ReplaceReturnType ctype
  | ReplaceArgs "ctype list"
  | ReplaceArgsTuple "ctype list"
  | ReplaceNthArg nat ctype

text \<open>
  The macro \<open>REPLACE_CALLING_CONVENTION\<close> in a specialization of \<open>FreeFunctionTraits\<close>:
  \<open>std::tuple_element_t\<close> at the enumerator's value, in the tuple of the function type
  under each convention, whose entry for \<open>Thiscall\<close> is the type under the function's own
  \<open>CC\<close>; for a variadic function the type under \<open>STDEXT_CC_VARIADIC\<close>.
\<close>

definition REPLACE_CALLING_CONVENTION_free ::
  "target \<Rightarrow> traits \<Rightarrow> CallingConvention \<Rightarrow> ctype option" where
  "REPLACE_CALLING_CONVENTION_free tg t NewCallingConventionT =
     (let R = arg_R t; Args = arg_Args t; e = declares_ellipsis (macro_ARGS (spec t));
          n = macro_IS_NOEXCEPT (spec t) in
      case macro_REPLACE_CALLING_CONVENTION (spec t) of
        TupleElement \<Rightarrow>
          tuple_element_t (enumerator_value NewCallingConventionT)
            ([free_function_type tg R Cdecl Args e n,
              free_function_type tg R Stdcall Args e n,
              free_function_type tg R Fastcall Args e n,
              free_function_type tg R Vectorcall Args e n,
              free_function_type tg R (macro_CC (spec t)) Args e n] @
             (if STDEXT_CC_REGCALL tg then [free_function_type tg R Regcall Args e n] else []))
      | VariadicOnly \<Rightarrow> Some (free_function_type tg R STDEXT_CC_VARIADIC Args e n))"

definition REPLACE_CALLING_CONVENTION_member ::
  "target \<Rightarrow> traits \<Rightarrow> CallingConvention \<Rightarrow> ctype option" where
  "REPLACE_CALLING_CONVENTION_member tg t NewCallingConventionT =
     (let R = arg_R t; C = arg_C t; Args = arg_Args t;
          e = declares_ellipsis (macro_ARGS (spec t));
          c = declares_const (macro_CONST (spec t));
          v = declares_volatile (macro_VOLATILE (spec t));
          r = declares_ref (macro_REF (spec t));
          n = macro_IS_NOEXCEPT (spec t) in
      case macro_REPLACE_CALLING_CONVENTION (spec t) of
        TupleElement \<Rightarrow>
          tuple_element_t (enumerator_value NewCallingConventionT)
            ([member_function_pointer_type tg R Cdecl C Args e c v r n,
              member_function_pointer_type tg R Stdcall C Args e c v r n,
              member_function_pointer_type tg R Fastcall C Args e c v r n,
              member_function_pointer_type tg R Vectorcall C Args e c v r n,
              member_function_pointer_type tg R Thiscall C Args e c v r n] @
             (if STDEXT_CC_REGCALL tg
              then [member_function_pointer_type tg R Regcall C Args e c v r n] else []))
      | VariadicOnly \<Rightarrow>
          Some (member_function_pointer_type tg R STDEXT_CC_VARIADIC C Args e c v r n))"

text \<open>
  The aliases of a specialization made by \<open>MAKE_FREE_FUNC_TRAITS_2\<close>. \<open>None\<close> is a failed
  \<open>static_assert\<close> or an ill-formed type. \<open>ReplaceArgsTuple\<close> unpacks the tuple into
  \<open>ReplaceArgs\<close>, and \<open>ReplaceNthArg\<close> hands the tuple of \<open>ReplaceNthType_t\<close> to
  \<open>ReplaceArgsTuple\<close>. In \<open>ReplaceArgs\<close> and \<open>ReplaceReturnType\<close> the declarator is
  written from the template arguments \<open>NewArgsT...\<close> and \<open>NewReturnTypeT\<close>, which the
  language reads as parameter types and as a return type.
\<close>

definition FreeFunctionTraits_ReplaceArgs :: "target \<Rightarrow> traits \<Rightarrow> ctype list \<Rightarrow> ctype option" where
  "FreeFunctionTraits_ReplaceArgs tg t NewArgsT =
     (case parameter_types NewArgsT of
        None \<Rightarrow> None
      | Some Params \<Rightarrow>
          Some (MigratePointerAndRef (arg_F t)
             (conditional_t (IsVariadic (base t))
                (free_function_type tg (arg_R t) STDEXT_CC_VARIADIC Params True
                   (macro_IS_NOEXCEPT (spec t)))
                (free_function_type tg (arg_R t) (macro_CC (spec t)) Params False
                   (macro_IS_NOEXCEPT (spec t))))))"

fun FreeFunctionTraits_alias :: "target \<Rightarrow> traits \<Rightarrow> write_trait \<Rightarrow> ctype option" where
  "FreeFunctionTraits_alias tg t AddVariadicArgs =
     Some (MigratePointerAndRef (arg_F t)
        (free_function_type tg (arg_R t) STDEXT_CC_VARIADIC (arg_Args t) True
           (macro_IS_NOEXCEPT (spec t))))"
| "FreeFunctionTraits_alias tg t RemoveVariadicArgs =
     Some (MigratePointerAndRef (arg_F t)
        (free_function_type tg (arg_R t) (macro_CC (spec t)) (arg_Args t) False
           (macro_IS_NOEXCEPT (spec t))))"
| "FreeFunctionTraits_alias tg t AddConst = Some (arg_F t)"
| "FreeFunctionTraits_alias tg t RemoveConst = Some (arg_F t)"
| "FreeFunctionTraits_alias tg t AddVolatile = Some (arg_F t)"
| "FreeFunctionTraits_alias tg t RemoveVolatile = Some (arg_F t)"
| "FreeFunctionTraits_alias tg t AddCV = Some (arg_F t)"
| "FreeFunctionTraits_alias tg t RemoveCV = Some (arg_F t)"
| "FreeFunctionTraits_alias tg t AddLValueReference = Some (arg_F t)"
| "FreeFunctionTraits_alias tg t AddRValueReference = Some (arg_F t)"
| "FreeFunctionTraits_alias tg t RemoveReference = Some (arg_F t)"
| "FreeFunctionTraits_alias tg t AddNoexcept =
     Some (MigratePointerAndRef (arg_F t)
        (free_function_type tg (arg_R t) (macro_CC (spec t)) (arg_Args t)
           (declares_ellipsis (macro_ARGS (spec t))) True))"
| "FreeFunctionTraits_alias tg t RemoveNoexcept =
     Some (MigratePointerAndRef (arg_F t)
        (free_function_type tg (arg_R t) (macro_CC (spec t)) (arg_Args t)
           (declares_ellipsis (macro_ARGS (spec t))) False))"
| "FreeFunctionTraits_alias tg t (ReplaceCallingConvention NewCallingConventionT) =
     map_option (MigratePointerAndRef (arg_F t))
        (REPLACE_CALLING_CONVENTION_free tg t NewCallingConventionT)"
| "FreeFunctionTraits_alias tg t (ReplaceClass NewClassT) = Some (arg_F t)"
| "FreeFunctionTraits_alias tg t (ReplaceReturnType NewReturnTypeT) =
     (case declared_return_type NewReturnTypeT of
        None \<Rightarrow> None
      | Some Ret \<Rightarrow>
          Some (MigratePointerAndRef (arg_F t)
             (free_function_type tg Ret (macro_CC (spec t)) (arg_Args t)
                (declares_ellipsis (macro_ARGS (spec t))) (macro_IS_NOEXCEPT (spec t)))))"
| "FreeFunctionTraits_alias tg t (ReplaceArgs NewArgsT) = FreeFunctionTraits_ReplaceArgs tg t NewArgsT"
| "FreeFunctionTraits_alias tg t (ReplaceArgsTuple NewArgsTupleT) =
     FreeFunctionTraits_ReplaceArgs tg t NewArgsTupleT"
| "FreeFunctionTraits_alias tg t (ReplaceNthArg N NewArgT) =
     (case ReplaceNthType N NewArgT (arg_Args t) of
        None \<Rightarrow> None
      | Some NewArgsTupleT \<Rightarrow> FreeFunctionTraits_ReplaceArgs tg t NewArgsTupleT)"

text \<open>
  The aliases of a specialization made by \<open>MAKE_MEMBER_FUNC_TRAITS_5\<close>. Each is the private
  alias \<open>MigrateCvAndRef_t<NewF>\<close> of the specialization, applied to a pointer to member
  function type \<open>R (CC C::*)ARGS CONST VOLATILE REF noexcept(IS_NOEXCEPT)\<close> written from
  its parts: \<open>member_type_of\<close> is that alias on the type of given parts.
\<close>

definition member_type_of ::
  "target \<Rightarrow> traits \<Rightarrow> ctype \<Rightarrow> CallingConvention \<Rightarrow> string \<Rightarrow> ctype list \<Rightarrow> bool \<Rightarrow> bool \<Rightarrow> bool
     \<Rightarrow> RefQualifier \<Rightarrow> bool \<Rightarrow> ctype option" where
  "member_type_of tg t R CC C Args e c v r n =
     Some (MigrateCvAndRef (arg_F t) (member_function_pointer_type tg R CC C Args e c v r n))"

definition MemberFunctionTraits_ReplaceArgs :: "target \<Rightarrow> traits \<Rightarrow> ctype list \<Rightarrow> ctype option" where
  "MemberFunctionTraits_ReplaceArgs tg t NewArgsT =
     (case parameter_types NewArgsT of
        None \<Rightarrow> None
      | Some Params \<Rightarrow>
          (if IsVariadic (base t)
           then member_type_of tg t (arg_R t) STDEXT_CC_VARIADIC (arg_C t) Params True
                  (declares_const (macro_CONST (spec t))) (declares_volatile (macro_VOLATILE (spec t)))
                  (declares_ref (macro_REF (spec t))) (macro_IS_NOEXCEPT (spec t))
           else member_type_of tg t (arg_R t) (macro_CC (spec t)) (arg_C t) Params False
                  (declares_const (macro_CONST (spec t))) (declares_volatile (macro_VOLATILE (spec t)))
                  (declares_ref (macro_REF (spec t))) (macro_IS_NOEXCEPT (spec t))))"

fun MemberFunctionTraits_alias :: "target \<Rightarrow> traits \<Rightarrow> write_trait \<Rightarrow> ctype option" where
  "MemberFunctionTraits_alias tg t AddVariadicArgs =
     member_type_of tg t (arg_R t) STDEXT_CC_VARIADIC (arg_C t) (arg_Args t) True
       (declares_const (macro_CONST (spec t))) (declares_volatile (macro_VOLATILE (spec t)))
       (declares_ref (macro_REF (spec t))) (macro_IS_NOEXCEPT (spec t))"
| "MemberFunctionTraits_alias tg t RemoveVariadicArgs =
     member_type_of tg t (arg_R t) (macro_CC (spec t)) (arg_C t) (arg_Args t) False
       (declares_const (macro_CONST (spec t))) (declares_volatile (macro_VOLATILE (spec t)))
       (declares_ref (macro_REF (spec t))) (macro_IS_NOEXCEPT (spec t))"
| "MemberFunctionTraits_alias tg t AddConst =
     member_type_of tg t (arg_R t) (macro_CC (spec t)) (arg_C t) (arg_Args t)
       (declares_ellipsis (macro_ARGS (spec t)))
       True (declares_volatile (macro_VOLATILE (spec t)))
       (declares_ref (macro_REF (spec t))) (macro_IS_NOEXCEPT (spec t))"
| "MemberFunctionTraits_alias tg t RemoveConst =
     member_type_of tg t (arg_R t) (macro_CC (spec t)) (arg_C t) (arg_Args t)
       (declares_ellipsis (macro_ARGS (spec t)))
       False (declares_volatile (macro_VOLATILE (spec t)))
       (declares_ref (macro_REF (spec t))) (macro_IS_NOEXCEPT (spec t))"
| "MemberFunctionTraits_alias tg t AddVolatile =
     member_type_of tg t (arg_R t) (macro_CC (spec t)) (arg_C t) (arg_Args t)
       (declares_ellipsis (macro_ARGS (spec t)))
       (declares_const (macro_CONST (spec t))) True
       (declares_ref (macro_REF (spec t))) (macro_IS_NOEXCEPT (spec t))"
| "MemberFunctionTraits_alias tg t RemoveVolatile =
     member_type_of tg t (arg_R t) (macro_CC (spec t)) (arg_C t) (arg_Args t)
       (declares_ellipsis (macro_ARGS (spec t)))
       (declares_const (macro_CONST (spec t))) False
       (declares_ref (macro_REF (spec t))) (macro_IS_NOEXCEPT (spec t))"
| "MemberFunctionTraits_alias tg t AddCV =
     member_type_of tg t (arg_R t) (macro_CC (spec t)) (arg_C t) (arg_Args t)
       (declares_ellipsis (macro_ARGS (spec t)))
       True True
       (declares_ref (macro_REF (spec t))) (macro_IS_NOEXCEPT (spec t))"
| "MemberFunctionTraits_alias tg t RemoveCV =
     member_type_of tg t (arg_R t) (macro_CC (spec t)) (arg_C t) (arg_Args t)
       (declares_ellipsis (macro_ARGS (spec t)))
       False False
       (declares_ref (macro_REF (spec t))) (macro_IS_NOEXCEPT (spec t))"
| "MemberFunctionTraits_alias tg t AddLValueReference =
     member_type_of tg t (arg_R t) (macro_CC (spec t)) (arg_C t) (arg_Args t)
       (declares_ellipsis (macro_ARGS (spec t)))
       (declares_const (macro_CONST (spec t))) (declares_volatile (macro_VOLATILE (spec t)))
       LValue (macro_IS_NOEXCEPT (spec t))"
| "MemberFunctionTraits_alias tg t AddRValueReference =
     member_type_of tg t (arg_R t) (macro_CC (spec t)) (arg_C t) (arg_Args t)
       (declares_ellipsis (macro_ARGS (spec t)))
       (declares_const (macro_CONST (spec t))) (declares_volatile (macro_VOLATILE (spec t)))
       RValue (macro_IS_NOEXCEPT (spec t))"
| "MemberFunctionTraits_alias tg t RemoveReference =
     member_type_of tg t (arg_R t) (macro_CC (spec t)) (arg_C t) (arg_Args t)
       (declares_ellipsis (macro_ARGS (spec t)))
       (declares_const (macro_CONST (spec t))) (declares_volatile (macro_VOLATILE (spec t)))
       NoRef (macro_IS_NOEXCEPT (spec t))"
| "MemberFunctionTraits_alias tg t AddNoexcept =
     member_type_of tg t (arg_R t) (macro_CC (spec t)) (arg_C t) (arg_Args t)
       (declares_ellipsis (macro_ARGS (spec t)))
       (declares_const (macro_CONST (spec t))) (declares_volatile (macro_VOLATILE (spec t)))
       (declares_ref (macro_REF (spec t))) True"
| "MemberFunctionTraits_alias tg t RemoveNoexcept =
     member_type_of tg t (arg_R t) (macro_CC (spec t)) (arg_C t) (arg_Args t)
       (declares_ellipsis (macro_ARGS (spec t)))
       (declares_const (macro_CONST (spec t))) (declares_volatile (macro_VOLATILE (spec t)))
       (declares_ref (macro_REF (spec t))) False"
| "MemberFunctionTraits_alias tg t (ReplaceCallingConvention NewCallingConventionT) =
     map_option (MigrateCvAndRef (arg_F t))
        (REPLACE_CALLING_CONVENTION_member tg t NewCallingConventionT)"
| "MemberFunctionTraits_alias tg t (ReplaceClass NewClassT) =
     member_type_of tg t (arg_R t) (macro_CC (spec t)) NewClassT (arg_Args t)
       (declares_ellipsis (macro_ARGS (spec t)))
       (declares_const (macro_CONST (spec t))) (declares_volatile (macro_VOLATILE (spec t)))
       (declares_ref (macro_REF (spec t))) (macro_IS_NOEXCEPT (spec t))"
| "MemberFunctionTraits_alias tg t (ReplaceReturnType NewReturnTypeT) =
     (case declared_return_type NewReturnTypeT of
        None \<Rightarrow> None
      | Some Ret \<Rightarrow>
          member_type_of tg t Ret (macro_CC (spec t)) (arg_C t) (arg_Args t)
            (declares_ellipsis (macro_ARGS (spec t)))
            (declares_const (macro_CONST (spec t))) (declares_volatile (macro_VOLATILE (spec t)))
            (declares_ref (macro_REF (spec t))) (macro_IS_NOEXCEPT (spec t)))"
| "MemberFunctionTraits_alias tg t (ReplaceArgs NewArgsT) =
     MemberFunctionTraits_ReplaceArgs tg t NewArgsT"
| "MemberFunctionTraits_alias tg t (ReplaceArgsTuple NewArgsTupleT) =
     MemberFunctionTraits_ReplaceArgs tg t NewArgsTupleT"
| "MemberFunctionTraits_alias tg t (ReplaceNthArg N NewArgT) =
     (case ReplaceNthType N NewArgT (arg_Args t) of
        None \<Rightarrow> None
      | Some NewArgsTupleT \<Rightarrow> MemberFunctionTraits_ReplaceArgs tg t NewArgsTupleT)"

text \<open>
  An alias of \<open>FunctionTraits<F>\<close> is the alias of the specialization it derives from; the
  helper templates such as \<open>ReplaceNthArg_t<F, N, NewArgT>\<close> name it from \<open>F\<close>.
\<close>

definition FunctionTraits_alias :: "target \<Rightarrow> traits \<Rightarrow> write_trait \<Rightarrow> ctype option" where
  "FunctionTraits_alias tg t w =
     (if of_member t then MemberFunctionTraits_alias tg t w else FreeFunctionTraits_alias tg t w)"

definition alias_t :: "target \<Rightarrow> classes \<Rightarrow> ctype \<Rightarrow> write_trait \<Rightarrow> ctype option" where
  "alias_t tg decls F w =
     (case FunctionTraits tg decls F of None \<Rightarrow> None | Some t \<Rightarrow> FunctionTraits_alias tg t w)"

section \<open>Notions used in the statements\<close>

text \<open>
  A calling convention is applicable to a free function, or to a non-static member
  function, on a target when the compiler keeps it there and the header knows it for that
  category (\<open>Thiscall\<close> is for member functions only, \<open>Regcall\<close> needs \<open>STDEXT_CC_REGCALL\<close>);
  \<open>Cdecl\<close> always is, and a variadic function has no other.
\<close>

definition applicable_free :: "target \<Rightarrow> CallingConvention \<Rightarrow> bool \<Rightarrow> bool" where
  "applicable_free tg cc e =
     (cc = Cdecl \<or>
      (\<not> e \<and> cc \<in> set (free_conventions tg) \<and>
       (cc = Stdcall \<or> cc = Fastcall \<or> cc = Vectorcall \<or> (cc = Regcall \<and> STDEXT_CC_REGCALL tg))))"

definition applicable_member :: "target \<Rightarrow> CallingConvention \<Rightarrow> bool \<Rightarrow> bool" where
  "applicable_member tg cc e =
     (cc = Cdecl \<or>
      (\<not> e \<and> cc \<in> set (member_conventions tg) \<and> (cc = Regcall \<longrightarrow> STDEXT_CC_REGCALL tg)))"

text \<open>The specialization written for given attributes of a function.\<close>

definition specialization_for ::
  "CallingConvention \<Rightarrow> bool \<Rightarrow> bool \<Rightarrow> bool \<Rightarrow> RefQualifier \<Rightarrow> bool \<Rightarrow> specialization" where
  "specialization_for cc e c v r n =
     \<lparr>macro_CC = cc, macro_CALLING_CONVENTION = cc,
      macro_ARGS = (if e then ''(Args..., ...)'' else ''(Args...)''),
      macro_CONST = (if c then ''const'' else []),
      macro_VOLATILE = (if v then ''volatile'' else []),
      macro_REF = (case r of NoRef \<Rightarrow> [] | LValue \<Rightarrow> ''&'' | RValue \<Rightarrow> ''&&''),
      macro_IS_NOEXCEPT = n,
      macro_REPLACE_CALLING_CONVENTION = (if e then VariadicOnly else TupleElement)\<rparr>"

text \<open>
  The type built around a core type: an optional pointer with its cv-qualifiers, then an
  optional reference; \<open>cv_qualified c v T\<close> is \<open>T\<close> with the given cv-qualifiers added. The
  outer wrapping of a type is read off accordingly: its kind of reference, and below the
  reference whether there is a pointer and which cv-qualifiers stand there.
\<close>

fun reference_to :: "RefQualifier \<Rightarrow> ctype \<Rightarrow> ctype" where
  "reference_to NoRef T = T"
| "reference_to LValue T = LValueReference T"
| "reference_to RValue T = RValueReference T"

fun pointer_to_cv :: "(bool \<times> bool) option \<Rightarrow> ctype \<Rightarrow> ctype" where
  "pointer_to_cv None T = T"
| "pointer_to_cv (Some (c, v)) T = Pointer T c v"

definition wrap_free :: "RefQualifier \<Rightarrow> (bool \<times> bool) option \<Rightarrow> ctype \<Rightarrow> ctype" where
  "wrap_free rk p G = reference_to rk (pointer_to_cv p G)"

definition cv_qualified :: "bool \<Rightarrow> bool \<Rightarrow> ctype \<Rightarrow> ctype" where
  "cv_qualified c v T = (if v then add_volatile_t else id) ((if c then add_const_t else id) T)"

fun reference_kind :: "ctype \<Rightarrow> RefQualifier" where
  "reference_kind (LValueReference T) = LValue"
| "reference_kind (RValueReference T) = RValue"
| "reference_kind T = NoRef"


text \<open>
  The instantiated specialization expected for a free function, and for a non-static
  member function, of given attributes.
\<close>

definition free_traits ::
  "ctype \<Rightarrow> ctype \<Rightarrow> CallingConvention \<Rightarrow> ctype list \<Rightarrow> bool \<Rightarrow> bool \<Rightarrow> traits" where
  "free_traits F R cc Args e n =
     \<lparr>base = \<lparr>Type = F, ReturnType = R, CallingConvention = cc, IsVariadic = e,
               Class = Void, IsConst = False, IsVolatile = False, RefQualifier = NoRef,
               IsNoexcept = n, ArgTypes = Args, IsFunctor = False\<rparr>,
      arg_F = F, arg_R = R, arg_C = [], arg_Args = Args,
      spec = specialization_for cc e False False NoRef n, of_member = False\<rparr>"

definition member_traits ::
  "ctype \<Rightarrow> ctype \<Rightarrow> CallingConvention \<Rightarrow> string \<Rightarrow> ctype list \<Rightarrow> bool \<Rightarrow> bool \<Rightarrow> bool
     \<Rightarrow> RefQualifier \<Rightarrow> bool \<Rightarrow> bool \<Rightarrow> traits" where
  "member_traits F R cc C Args e c v r n functor =
     \<lparr>base = \<lparr>Type = F, ReturnType = R, CallingConvention = cc, IsVariadic = e,
               Class = ClassType C False False, IsConst = c, IsVolatile = v, RefQualifier = r,
               IsNoexcept = n, ArgTypes = Args, IsFunctor = functor\<rparr>,
      arg_F = F, arg_R = R, arg_C = C, arg_Args = Args,
      spec = specialization_for cc e c v r n, of_member = True\<rparr>"

text \<open>
  A write trait sets an attribute to the value it already has, in a classification. The
  return type and the parameter types that \<open>ReplaceReturnType\<close>, \<open>ReplaceArgs\<close>,
  \<open>ReplaceArgsTuple\<close> and \<open>ReplaceNthArg\<close> set are those that the language reads from the
  template arguments; on a function type of the language, whose parameter types are
  adjusted already, the types it has are read as themselves.
\<close>

fun sets_current_value :: "FunctionTraitsBase \<Rightarrow> write_trait \<Rightarrow> bool" where
  "sets_current_value b AddVariadicArgs = IsVariadic b"
| "sets_current_value b RemoveVariadicArgs = (\<not> IsVariadic b)"
| "sets_current_value b AddConst = IsConst b"
| "sets_current_value b RemoveConst = (\<not> IsConst b)"
| "sets_current_value b AddVolatile = IsVolatile b"
| "sets_current_value b RemoveVolatile = (\<not> IsVolatile b)"
| "sets_current_value b AddCV = (IsConst b \<and> IsVolatile b)"
| "sets_current_value b RemoveCV = (\<not> IsConst b \<and> \<not> IsVolatile b)"
| "sets_current_value b AddLValueReference = (RefQualifier b = LValue)"
| "sets_current_value b AddRValueReference = (RefQualifier b = RValue)"
| "sets_current_value b RemoveReference = (RefQualifier b = NoRef)"
| "sets_current_value b AddNoexcept = IsNoexcept b"
| "sets_current_value b RemoveNoexcept = (\<not> IsNoexcept b)"
| "sets_current_value b (ReplaceCallingConvention NewCallingConventionT) =
     (NewCallingConventionT = CallingConvention b)"
| "sets_current_value b (ReplaceClass NewClassT) = (Class b = ClassType NewClassT False False)"
| "sets_current_value b (ReplaceReturnType NewReturnTypeT) =
     (declared_return_type NewReturnTypeT = Some (ReturnType b))"
| "sets_current_value b (ReplaceArgs NewArgsT) = (parameter_types NewArgsT = Some (ArgTypes b))"
| "sets_current_value b (ReplaceArgsTuple NewArgsTupleT) =
     (parameter_types NewArgsTupleT = Some (ArgTypes b))"
| "sets_current_value b (ReplaceNthArg N NewArgT) =
     (N < ArgCount b \<and> parameter_types ((ArgTypes b)[N := NewArgT]) = Some (ArgTypes b))"

text \<open>
  The attributes of the function that a classification records, as the members of
  \<open>FunctionTraitsBase\<close> give them: the analysed type, its return type, calling convention,
  parameter types and their number, the variadic and noexcept flags, the owning class with
  the two predicates derived from it, and the const, volatile and reference qualifiers.
  The member \<open>IsFunctor\<close> is not one of them: it tells that the classification was
  reached through \<open>FunctorTraits\<close>, which sets it by design.
\<close>

definition classification ::
  "FunctionTraitsBase \<Rightarrow>
     ctype \<times> ctype \<times> CallingConvention \<times> ctype list \<times> nat \<times> bool \<times> bool \<times> ctype \<times> bool \<times> bool \<times>
     bool \<times> bool \<times> RefQualifier" where
  "classification b =
     (Type b, ReturnType b, CallingConvention b, ArgTypes b, ArgCount b, IsVariadic b,
      IsNoexcept b, Class b, IsMemberFunction b, IsFreeFunction b, IsConst b, IsVolatile b,
      RefQualifier b)"

text \<open>The write traits that apply to non-static member functions only.\<close>

fun member_only :: "write_trait \<Rightarrow> bool" where
  "member_only AddConst = True"
| "member_only RemoveConst = True"
| "member_only AddVolatile = True"
| "member_only RemoveVolatile = True"
| "member_only AddCV = True"
| "member_only RemoveCV = True"
| "member_only AddLValueReference = True"
| "member_only AddRValueReference = True"
| "member_only RemoveReference = True"
| "member_only (ReplaceClass NewClassT) = True"
| "member_only w = False"

section \<open>Concrete inputs\<close>

text \<open>
  A target that keeps only \<open>vectorcall\<close> beside \<open>cdecl\<close> (as the header's comments report
  for 64-bit builds) and one that keeps every convention (a 32-bit build); the class \<open>K\<close>
  with the single call operator \<open>void operator()(int) const noexcept\<close>; and the free
  function type \<open>int (double, int)\<close>.
\<close>

definition target_64 :: target where
  "target_64 = \<lparr>free_conventions = [Vectorcall], member_conventions = [Vectorcall],
                 STDEXT_CC_REGCALL = False\<rparr>"

definition target_32 :: target where
  "target_32 = \<lparr>free_conventions = [Stdcall, Fastcall, Vectorcall],
                 member_conventions = [Stdcall, Fastcall, Vectorcall, Thiscall],
                 STDEXT_CC_REGCALL = False\<rparr>"

definition int_type :: ctype where
  "int_type = Fundamental ''int'' False False"

definition double_type :: ctype where
  "double_type = Fundamental ''double'' False False"

definition float_type :: ctype where
  "float_type = Fundamental ''float'' False False"

definition K_call_operator :: ctype where
  "K_call_operator = Function Void Cdecl [int_type] False True False NoRef True"

definition K_program :: classes where
  "K_program = (\<lambda>n. if n = ''K'' then [CallOperator K_call_operator] else [])"

definition int_double_int :: ctype where
  "int_double_int = Function int_type Cdecl [double_type, int_type] False False False NoRef False"

section \<open>Properties of the iteration\<close>

lemma Process_completed_gen:
  fixes g :: "('s \<times> 'a list) ForEachFunctor"
  assumes "\<And>J s calls. I \<le> J \<Longrightarrow> J < N \<Longrightarrow> \<exists>s'. g J (s, calls) = (True, (s', calls @ [lab J]))"
  shows "\<exists>s'. Process N g I (s, calls) = (True, (s', calls @ map lab [I..<N]))"
  using assms
proof (induction "N - I" arbitrary: I s calls)
  case 0
  then show ?case by (simp add: Process.simps)
next
  case (Suc d)
  then have lt: "I < N" by simp
  from Suc.prems [of I s calls] lt obtain s1 where g: "g I (s, calls) = (True, (s1, calls @ [lab I]))"
    by auto
  have d: "d = N - (I + 1)" using Suc.hyps(2) by simp
  have "\<exists>s'. Process N g (I + 1) (s1, calls @ [lab I]) = (True, s', (calls @ [lab I]) @ map lab [I + 1..<N])"
    by (rule Suc.hyps(1) [OF d]) (use Suc.prems in auto)
  then obtain s' where "Process N g (I + 1) (s1, calls @ [lab I]) = (True, s', (calls @ [lab I]) @ map lab [I + 1..<N])"
    by blast
  moreover have "[I..<N] = I # [I + 1..<N]" using lt by (simp add: upt_conv_Cons)
  ultimately show ?case
    using lt g by (subst Process.simps) simp
qed

lemma Process_stopped_gen:
  fixes g :: "('s \<times> 'a list) ForEachFunctor"
  assumes "I \<le> k" and "k < N"
    and "\<And>J s calls. I \<le> J \<Longrightarrow> J < k \<Longrightarrow> \<exists>s'. g J (s, calls) = (True, (s', calls @ [lab J]))"
    and "\<And>s calls. \<exists>s'. g k (s, calls) = (False, (s', calls @ [lab k]))"
  shows "\<exists>s'. Process N g I (s, calls) = (False, (s', calls @ map lab [I..<Suc k]))"
  using assms
proof (induction "k - I" arbitrary: I s calls)
  case 0
  then have [simp]: "I = k" by simp
  from 0(5) [of s calls] obtain s1 where "g k (s, calls) = (False, (s1, calls @ [lab k]))" by auto
  then show ?case using 0 by (subst Process.simps) simp
next
  case (Suc d)
  then have lt: "I < k" by simp
  then have ltN: "I < N" using Suc.prems by simp
  from Suc.prems(3) [of I s calls] lt obtain s1 where g: "g I (s, calls) = (True, (s1, calls @ [lab I]))"
    by auto
  have d: "d = k - (I + 1)" using Suc.hyps(2) by simp
  have le: "I + 1 \<le> k" using lt by simp
  have "\<exists>s'. Process N g (I + 1) (s1, calls @ [lab I]) = (False, s', (calls @ [lab I]) @ map lab [I + 1..<Suc k])"
    by (rule Suc.hyps(1) [OF d le Suc.prems(2)]) (use Suc.prems in auto)
  then obtain s' where "Process N g (I + 1) (s1, calls @ [lab I]) = (False, s', (calls @ [lab I]) @ map lab [I + 1..<Suc k])"
    by blast
  moreover have "[I..<Suc k] = I # [I + 1..<Suc k]" using lt by (simp add: upt_conv_Cons)
  ultimately show ?case
    using ltN g by (subst Process.simps) simp
qed

lemma recording_step:
  "\<exists>s'. recording functor J (s, calls) = (fst (functor J s), (s', calls @ [J]))"
  by (cases "functor J s") (simp add: recording_def)

lemma recordingTuple_step:
  "\<exists>s'. processTupleType TupleT (recordingTuple functor) J (s, calls)
        = (fst (functor J (TupleT ! J) s), (s', calls @ [(J, TupleT ! J)]))"
  by (cases "functor J (TupleT ! J) s") (simp add: recordingTuple_def processTupleType_def)

lemma map_index_zip:
  "n \<le> length xs \<Longrightarrow> map (\<lambda>I. (I, xs ! I)) [0..<n] = zip [0..<n] xs"
  by (rule nth_equalityI) simp_all

text \<open>
  Claim C7. \<open>ForEach<N>\<close> invokes the functor once at each index \<open>0, ..., N - 1\<close>, in
  this order, and returns true when the functor returns true at every index (no invocation
  when \<open>N = 0\<close>); when the functor first returns false at index \<open>k\<close> it has been invoked
  at exactly the indices \<open>0, ..., k\<close> (\<open>k + 1\<close> invocations, none beyond \<open>k\<close>) and the call
  returns false. \<open>ForEachTupleType\<close> does the same over the element types of a tuple,
  handing each index its element type.
\<close>

theorem ForEach_contract:
  fixes f :: "'s ForEachFunctor" and tf :: "('t, 'u) ForEachTupleFunctor"
  shows
  "((\<forall>I<N. \<forall>s. fst (f I s)) \<longrightarrow>
      (\<exists>s'. ForEach N (recording f) (s, []) = (True, (s', [0..<N])))) \<and>
   (k < N \<and> (\<forall>I<k. \<forall>s. fst (f I s)) \<and> (\<forall>s. \<not> fst (f k s)) \<longrightarrow>
      (\<exists>s'. ForEach N (recording f) (s, []) = (False, (s', [0..<Suc k])))) \<and>
   ((\<forall>I<length TupleT. \<forall>u. fst (tf I (TupleT ! I) u)) \<longrightarrow>
      (\<exists>u'. ForEachTupleType TupleT (recordingTuple tf) (u, [])
            = (True, (u', zip [0..<length TupleT] TupleT)))) \<and>
   (j < length TupleT \<and> (\<forall>I<j. \<forall>u. fst (tf I (TupleT ! I) u)) \<and>
      (\<forall>u. \<not> fst (tf j (TupleT ! j) u)) \<longrightarrow>
      (\<exists>u'. ForEachTupleType TupleT (recordingTuple tf) (u, [])
            = (False, (u', zip [0..<Suc j] TupleT))))"
proof (intro conjI impI)
  assume a: "\<forall>I<N. \<forall>s. fst (f I s)"
  have "\<exists>s'. Process N (recording f) 0 (s, []) = (True, (s', [] @ map (\<lambda>I. I) [0..<N]))"
  proof (rule Process_completed_gen)
    fix J s calls assume "J < N"
    with a have "fst (f J s)" by blast
    with recording_step [of f J s calls]
    show "\<exists>s'. recording f J (s, calls) = (True, s', calls @ [J])" by simp
  qed
  then show "\<exists>s'. ForEach N (recording f) (s, []) = (True, (s', [0..<N]))"
    by (simp add: ForEach_def)
next
  assume a: "k < N \<and> (\<forall>I<k. \<forall>s. fst (f I s)) \<and> (\<forall>s. \<not> fst (f k s))"
  have "\<exists>s'. Process N (recording f) 0 (s, []) = (False, (s', [] @ map (\<lambda>I. I) [0..<Suc k]))"
  proof (rule Process_stopped_gen)
    show "0 \<le> k" by simp
    show "k < N" using a by simp
  next
    fix J s calls assume "J < k"
    with a have "fst (f J s)" by blast
    with recording_step [of f J s calls]
    show "\<exists>s'. recording f J (s, calls) = (True, s', calls @ [J])" by simp
  next
    fix s calls
    from a have "\<not> fst (f k s)" by blast
    with recording_step [of f k s calls]
    show "\<exists>s'. recording f k (s, calls) = (False, s', calls @ [k])" by simp
  qed
  then show "\<exists>s'. ForEach N (recording f) (s, []) = (False, (s', [0..<Suc k]))"
    by (simp add: ForEach_def)
next
  assume a: "\<forall>I<length TupleT. \<forall>u. fst (tf I (TupleT ! I) u)"
  let ?g = "processTupleType TupleT (recordingTuple tf)"
  have "\<exists>u'. Process (length TupleT) ?g 0 (u, [])
          = (True, (u', [] @ map (\<lambda>I. (I, TupleT ! I)) [0..<length TupleT]))"
  proof (rule Process_completed_gen)
    fix J s calls assume "J < length TupleT"
    with a have "fst (tf J (TupleT ! J) s)" by blast
    with recordingTuple_step [of TupleT tf J s calls]
    show "\<exists>s'. ?g J (s, calls) = (True, s', calls @ [(J, TupleT ! J)])" by simp
  qed
  then have "\<exists>u'. Process (length TupleT) ?g 0 (u, []) = (True, (u', zip [0..<length TupleT] TupleT))"
    by (simp add: map_index_zip)
  then show "\<exists>u'. ForEachTupleType TupleT (recordingTuple tf) (u, [])
            = (True, (u', zip [0..<length TupleT] TupleT))"
    by (cases "TupleT = []") (simp_all add: ForEachTupleType_def ForEach_def)
next
  assume a: "j < length TupleT \<and> (\<forall>I<j. \<forall>u. fst (tf I (TupleT ! I) u)) \<and>
      (\<forall>u. \<not> fst (tf j (TupleT ! j) u))"
  let ?g = "processTupleType TupleT (recordingTuple tf)"
  have "\<exists>u'. Process (length TupleT) ?g 0 (u, [])
          = (False, (u', [] @ map (\<lambda>I. (I, TupleT ! I)) [0..<Suc j]))"
  proof (rule Process_stopped_gen)
    show "0 \<le> j" by simp
    show "j < length TupleT" using a by simp
  next
    fix J s calls assume "J < j"
    with a have "fst (tf J (TupleT ! J) s)" by blast
    with recordingTuple_step [of TupleT tf J s calls]
    show "\<exists>s'. ?g J (s, calls) = (True, s', calls @ [(J, TupleT ! J)])" by simp
  next
    fix s calls
    from a have "\<not> fst (tf j (TupleT ! j) s)" by blast
    with recordingTuple_step [of TupleT tf j s calls]
    show "\<exists>s'. ?g j (s, calls) = (False, s', calls @ [(j, TupleT ! j)])" by simp
  qed
  moreover have "Suc j \<le> length TupleT" using a by simp
  ultimately have "\<exists>u'. Process (length TupleT) ?g 0 (u, []) = (False, (u', zip [0..<Suc j] TupleT))"
    by (simp only: map_index_zip append_Nil)
  then show "\<exists>u'. ForEachTupleType TupleT (recordingTuple tf) (u, [])
            = (False, (u', zip [0..<Suc j] TupleT))"
    using a by (cases "TupleT = []") (simp_all add: ForEachTupleType_def ForEach_def)
qed

theorem ForEach_contract_witness:
  "(\<exists>s'. ForEach 3 (recording (\<lambda>I s. (True, Suc s))) (0::nat, []) = (True, (s', [0..<3]))) \<and>
   (\<exists>s'. ForEach 3 (recording (\<lambda>I s. (I < 1, Suc s))) (0::nat, []) = (False, (s', [0..<Suc 1]))) \<and>
   (\<exists>u'. ForEachTupleType ''ab'' (recordingTuple (\<lambda>I T u. (True, Suc u))) (0::nat, [])
         = (True, (u', zip [0..<length ''ab''] ''ab''))) \<and>
   (\<exists>u'. ForEachTupleType ''ab'' (recordingTuple (\<lambda>I T u. (T = CHR ''b'', Suc u))) (0::nat, [])
         = (False, (u', zip [0..<Suc 0] ''ab'')))"
  using ForEach_contract [of 3 "\<lambda>I s. (True, Suc s)" 0 0 "''ab''" "\<lambda>I T u. (True, Suc u)" 0 0]
        ForEach_contract [of 3 "\<lambda>I s. (I < 1, Suc s)" 0 1 "''ab''" "\<lambda>I T u. (T = CHR ''b'', Suc u)" 0 0]
  by simp

section \<open>Properties of the type-name extraction\<close>






















section \<open>Which specialization is chosen\<close>

lemma member_matches_iff:
  "member_specialization_matches tg (MemberPointer C (Function R cc Args e c v r n) pc pv) s =
     (\<not> pc \<and> \<not> pv \<and>
      CallingConventionReplacedWithCdecl tg (macro_CALLING_CONVENTION s) False = Some False \<and>
      (if macro_CC s \<in> set (member_conventions tg) then macro_CC s else Cdecl) = cc \<and>
      declares_ellipsis (macro_ARGS s) = e \<and>
      declares_const (macro_CONST s) = c \<and>
      declares_volatile (macro_VOLATILE s) = v \<and>
      declares_ref (macro_REF s) = r \<and>
      macro_IS_NOEXCEPT s = n)"
  by (auto simp: member_function_pointer_type_def)

lemma filter_MAKE_MEMBER_FUNC_TRAITS_4:
  "filter (member_specialization_matches tg (MemberPointer C (Function R cc Args e c v r n) False False))
     (MAKE_MEMBER_FUNC_TRAITS_4 rm CC CCV ARGS REF VOLATILE CONST_QUAL) =
   (if CallingConventionReplacedWithCdecl tg CCV False = Some False \<and>
       (if CC \<in> set (member_conventions tg) then CC else Cdecl) = cc \<and>
       declares_ellipsis ARGS = e \<and> declares_const CONST_QUAL = c \<and>
       declares_volatile VOLATILE = v \<and> declares_ref REF = r
    then [\<lparr>macro_CC = CC, macro_CALLING_CONVENTION = CCV, macro_ARGS = ARGS,
           macro_CONST = CONST_QUAL, macro_VOLATILE = VOLATILE, macro_REF = REF,
           macro_IS_NOEXCEPT = n, macro_REPLACE_CALLING_CONVENTION = rm\<rparr>]
    else [])"
  by (cases n)
     (simp_all add: MAKE_MEMBER_FUNC_TRAITS_4_def MAKE_MEMBER_FUNC_TRAITS_5_def member_matches_iff
        del: member_specialization_matches.simps)

lemma filter_MAKE_MEMBER_FUNC_TRAITS_3:
  "filter (member_specialization_matches tg (MemberPointer C (Function R cc Args e c v r n) False False))
     (MAKE_MEMBER_FUNC_TRAITS_3 rm CC CCV ARGS REF VOLATILE) =
   (if CallingConventionReplacedWithCdecl tg CCV False = Some False \<and>
       (if CC \<in> set (member_conventions tg) then CC else Cdecl) = cc \<and>
       declares_ellipsis ARGS = e \<and>
       declares_volatile VOLATILE = v \<and> declares_ref REF = r
    then [\<lparr>macro_CC = CC, macro_CALLING_CONVENTION = CCV, macro_ARGS = ARGS,
           macro_CONST = (if c then ''const'' else []), macro_VOLATILE = VOLATILE, macro_REF = REF,
           macro_IS_NOEXCEPT = n, macro_REPLACE_CALLING_CONVENTION = rm\<rparr>]
    else [])"
  by (cases c)
     (simp_all add: MAKE_MEMBER_FUNC_TRAITS_3_def filter_MAKE_MEMBER_FUNC_TRAITS_4 declares_const_def)

lemma filter_MAKE_MEMBER_FUNC_TRAITS_2:
  "filter (member_specialization_matches tg (MemberPointer C (Function R cc Args e c v r n) False False))
     (MAKE_MEMBER_FUNC_TRAITS_2 rm CC CCV ARGS REF) =
   (if CallingConventionReplacedWithCdecl tg CCV False = Some False \<and>
       (if CC \<in> set (member_conventions tg) then CC else Cdecl) = cc \<and>
       declares_ellipsis ARGS = e \<and> declares_ref REF = r
    then [\<lparr>macro_CC = CC, macro_CALLING_CONVENTION = CCV, macro_ARGS = ARGS,
           macro_CONST = (if c then ''const'' else []),
           macro_VOLATILE = (if v then ''volatile'' else []), macro_REF = REF,
           macro_IS_NOEXCEPT = n, macro_REPLACE_CALLING_CONVENTION = rm\<rparr>]
    else [])"
  by (cases v)
     (simp_all add: MAKE_MEMBER_FUNC_TRAITS_2_def filter_MAKE_MEMBER_FUNC_TRAITS_3 declares_volatile_def)

lemma filter_MAKE_MEMBER_FUNC_TRAITS_1:
  "filter (member_specialization_matches tg (MemberPointer C (Function R cc Args e c v r n) False False))
     (MAKE_MEMBER_FUNC_TRAITS_1 rm CC CCV ARGS) =
   (if CallingConventionReplacedWithCdecl tg CCV False = Some False \<and>
       (if CC \<in> set (member_conventions tg) then CC else Cdecl) = cc \<and>
       declares_ellipsis ARGS = e
    then [\<lparr>macro_CC = CC, macro_CALLING_CONVENTION = CCV, macro_ARGS = ARGS,
           macro_CONST = (if c then ''const'' else []),
           macro_VOLATILE = (if v then ''volatile'' else []),
           macro_REF = (case r of NoRef \<Rightarrow> [] | LValue \<Rightarrow> ''&'' | RValue \<Rightarrow> ''&&''),
           macro_IS_NOEXCEPT = n, macro_REPLACE_CALLING_CONVENTION = rm\<rparr>]
    else [])"
  by (cases r)
     (simp_all add: MAKE_MEMBER_FUNC_TRAITS_1_def filter_MAKE_MEMBER_FUNC_TRAITS_2 declares_ref_def)

lemma member_replaced:
  "CallingConventionReplacedWithCdecl tg CCV False = Some False \<longleftrightarrow>
     CCV = Cdecl \<or> (CCV \<in> set (member_conventions tg) \<and> (CCV = Regcall \<longrightarrow> STDEXT_CC_REGCALL tg))"
  by (cases CCV)
     (auto simp: CallingConventionReplacedWithCdecl_def IS_REPLACED_WITH_CDECL_member_def
        member_function_pointer_type_def)

lemma filter_if: "filter P (if b then xs else ys) = (if b then filter P xs else filter P ys)"
  by simp

lemma filter_MemberFunctionTraits_specializations:
  "filter (member_specialization_matches tg (MemberPointer C (Function R cc Args e c v r n) False False))
     (MemberFunctionTraits_specializations tg) =
   (if applicable_member tg cc e then [specialization_for cc e c v r n] else [])"
  unfolding MemberFunctionTraits_specializations_def MAKE_MEMBER_FUNC_TRAITS_NON_VARIADIC_def
    filter_append filter_if filter_MAKE_MEMBER_FUNC_TRAITS_1 member_replaced
  by (cases cc; cases e)
     (auto simp: applicable_member_def specialization_for_def declares_ellipsis_def
        STDEXT_CC_VARIADIC_def Variadic_def)


lemma free_matches_iff:
  "free_specialization_matches tg (Function R cc Args e c v r n) s =
     (\<not> c \<and> \<not> v \<and> r = NoRef \<and>
      CallingConventionReplacedWithCdecl tg (macro_CALLING_CONVENTION s) True = Some False \<and>
      (if macro_CC s \<in> set (free_conventions tg) then macro_CC s else Cdecl) = cc \<and>
      declares_ellipsis (macro_ARGS s) = e \<and>
      macro_IS_NOEXCEPT s = n)"
  by (auto simp: free_specialization_matches_def free_function_type_def)

lemma filter_MAKE_FREE_FUNC_TRAITS_1:
  "filter (free_specialization_matches tg (Function R cc Args e False False NoRef n))
     (MAKE_FREE_FUNC_TRAITS_1 rm CC CCV ARGS) =
   (if CallingConventionReplacedWithCdecl tg CCV True = Some False \<and>
       (if CC \<in> set (free_conventions tg) then CC else Cdecl) = cc \<and>
       declares_ellipsis ARGS = e
    then [\<lparr>macro_CC = CC, macro_CALLING_CONVENTION = CCV, macro_ARGS = ARGS,
           macro_CONST = [], macro_VOLATILE = [], macro_REF = [],
           macro_IS_NOEXCEPT = n, macro_REPLACE_CALLING_CONVENTION = rm\<rparr>]
    else [])"
  by (cases n)
     (simp_all add: MAKE_FREE_FUNC_TRAITS_1_def MAKE_FREE_FUNC_TRAITS_2_def free_matches_iff)

lemma free_replaced:
  "CCV \<noteq> Thiscall \<Longrightarrow>
   CallingConventionReplacedWithCdecl tg CCV True = Some False \<longleftrightarrow>
     CCV = Cdecl \<or> (CCV \<in> set (free_conventions tg) \<and> (CCV = Regcall \<longrightarrow> STDEXT_CC_REGCALL tg))"
  by (cases CCV)
     (auto simp: CallingConventionReplacedWithCdecl_def IS_REPLACED_WITH_CDECL_free_def
        free_function_type_def)

lemma filter_FreeFunctionTraits_specializations:
  "filter (free_specialization_matches tg (Function R cc Args e False False NoRef n))
     (FreeFunctionTraits_specializations tg) =
   (if applicable_free tg cc e then [specialization_for cc e False False NoRef n] else [])"
  unfolding FreeFunctionTraits_specializations_def MAKE_FREE_FUNC_TRAITS_NON_VARIADIC_def
    filter_append filter_if filter_MAKE_FREE_FUNC_TRAITS_1
  by (cases cc; cases e)
     (auto simp: free_replaced applicable_free_def specialization_for_def declares_ellipsis_def
        STDEXT_CC_VARIADIC_def Variadic_def)

lemma filter_free_abominable:
  "c \<or> v \<or> r \<noteq> NoRef \<Longrightarrow>
   filter (free_specialization_matches tg (Function R cc Args e c v r n)) specs = []"
  by (auto simp: filter_empty_conv free_matches_iff)

lemma filter_member_cv:
  "pc \<or> pv \<Longrightarrow>
   filter (member_specialization_matches tg (MemberPointer C (Function R cc Args e c v r n) pc pv)) specs = []"
  by (auto simp: filter_empty_conv member_matches_iff simp del: member_specialization_matches.simps)

lemma stringized_ARGS:
  "(stringized_at (if e then ''(Args..., ...)'' else ''(Args...)'') 9 \<noteq> CHR 0x00) = e"
  by (simp add: stringized_at_def)

lemma stringized_CONST:
  "(stringized_at (if c then ''const'' else []) 0 \<noteq> CHR 0x00) = c"
  by (simp add: stringized_at_def)

lemma stringized_VOLATILE:
  "(stringized_at (if v then ''volatile'' else []) 0 \<noteq> CHR 0x00) = v"
  by (simp add: stringized_at_def)

lemma stringized_REF:
  "(if stringized_at (case r of NoRef \<Rightarrow> [] | LValue \<Rightarrow> ''&'' | RValue \<Rightarrow> ''&&'') 0 = CHR 0x00
    then NoRef
    else (if stringized_at (case r of NoRef \<Rightarrow> [] | LValue \<Rightarrow> ''&'' | RValue \<Rightarrow> ''&&'') 1 = CHR 0x00
          then LValue else RValue)) = r"
  by (cases r) (simp_all add: stringized_at_def)

lemma FreeFunctionTraits_Function:
  "FreeFunctionTraits tg F (Function R cc Args e c v r n) =
     (if \<not> c \<and> \<not> v \<and> r = NoRef \<and> applicable_free tg cc e
      then Some (free_traits F R cc Args e n) else None)"
proof (cases "c \<or> v \<or> r \<noteq> NoRef")
  case True
  then show ?thesis
    by (auto simp: FreeFunctionTraits_def filter_free_abominable)
next
  case False
  then show ?thesis
    by (simp add: FreeFunctionTraits_def filter_FreeFunctionTraits_specializations free_traits_def
          FUNCTION_TRAITS_BASE_CLASS_free_def specialization_for_def stringized_ARGS)
qed

lemma MemberFunctionTraits_MemberPointer:
  "MemberFunctionTraits tg F (MemberPointer C (Function R cc Args e c v r n) pc pv) =
     (if \<not> pc \<and> \<not> pv \<and> applicable_member tg cc e
      then Some (member_traits F R cc C Args e c v r n False) else None)"
proof (cases "pc \<or> pv")
  case True
  then show ?thesis
    by (auto simp: filter_member_cv)
next
  case False
  then show ?thesis
    by (simp add: filter_MemberFunctionTraits_specializations member_traits_def
          FUNCTION_TRAITS_BASE_CLASS_member_def specialization_for_def stringized_ARGS
          stringized_CONST stringized_VOLATILE stringized_REF)
qed

lemma MemberFunctionTraits_not_function:
  "\<not> is_function_v f \<Longrightarrow> MemberFunctionTraits tg F (MemberPointer C f pc pv) = None"
  by (simp add: filter_empty_conv)


section \<open>The shape of the types that \<open>FunctionTraits\<close> accepts\<close>

lemma reference_to_kind: "reference_to (reference_kind F) (remove_reference_t F) = F"
  by (cases F) simp_all

lemma remove_reference_reference_to:
  "\<not> is_reference_v T \<Longrightarrow> remove_reference_t (reference_to rk T) = T"
  by (cases rk; cases T) (simp_all add: is_reference_v_def)

lemma Private_IsFreeFunction_iff:
  "Private_IsFreeFunction T \<longleftrightarrow> is_function_v T \<and> \<not> is_abominable T"
  by (cases T) (auto simp: Private_IsFreeFunction_def pointer_to_def is_reference_v_def)

lemma remove_cv_Function:
  "remove_cv_t T = Function R cc Args e c v r n \<longleftrightarrow> T = Function R cc Args e c v r n"
  by (cases T) auto

lemma remove_cv_MemberPointer:
  "remove_cv_t T = MemberPointer C f pc pv \<longleftrightarrow>
     \<not> pc \<and> \<not> pv \<and> (\<exists>c v. T = MemberPointer C f c v)"
  by (cases T) auto

lemma remove_cv_ClassType:
  "remove_cv_t T = ClassType K kc kv \<longleftrightarrow> \<not> kc \<and> \<not> kv \<and> (\<exists>c v. T = ClassType K c v)"
  by (cases T) auto

lemma remove_pointer_Function:
  "remove_pointer_t U = Function R cc Args e c v r n \<Longrightarrow>
   \<exists>p. U = pointer_to_cv p (Function R cc Args e c v r n)"
proof (cases U)
  case (Pointer T pc pv)
  assume "remove_pointer_t U = Function R cc Args e c v r n"
  with Pointer have "U = pointer_to_cv (Some (pc, pv)) (Function R cc Args e c v r n)" by simp
  then show ?thesis by blast
next
  case (Function R' cc' Args' e' c' v' r' n')
  assume "remove_pointer_t U = Function R cc Args e c v r n"
  with Function have "U = pointer_to_cv None (Function R cc Args e c v r n)" by simp
  then show ?thesis by blast
qed simp_all

lemma free_shape:
  assumes "RemoveRefAndPtrAndCv F = Function R cc Args e c v r n"
  shows "\<exists>rk p. F = wrap_free rk p (Function R cc Args e c v r n)"
proof -
  from assms have "remove_pointer_t (remove_reference_t F) = Function R cc Args e c v r n"
    by (simp add: RemoveRefAndPtrAndCv_def RemoveRefAndPtr_def remove_cv_Function)
  then obtain p where "remove_reference_t F = pointer_to_cv p (Function R cc Args e c v r n)"
    using remove_pointer_Function by blast
  then have "F = wrap_free (reference_kind F) p (Function R cc Args e c v r n)"
    using reference_to_kind [of F] by (simp add: wrap_free_def)
  then show ?thesis by blast
qed

lemma RemoveRefAndPtrAndCv_wrap_free [simp]:
  "RemoveRefAndPtrAndCv (wrap_free rk p (Function R cc Args e c v r n)) = Function R cc Args e c v r n"
  by (cases rk; cases p) (auto simp: RemoveRefAndPtrAndCv_def RemoveRefAndPtr_def wrap_free_def)

lemma RemoveRefAndPtrAndCv_ref_MemberPointer [simp]:
  "RemoveRefAndPtrAndCv (reference_to rk (MemberPointer C f pc pv)) = MemberPointer C f False False"
  by (cases rk) (auto simp: RemoveRefAndPtrAndCv_def RemoveRefAndPtr_def)

lemma RemoveRefAndPtrAndCv_ref_ClassType [simp]:
  "RemoveRefAndPtrAndCv (reference_to rk (ClassType K kc kv)) = ClassType K False False"
  by (cases rk) (auto simp: RemoveRefAndPtrAndCv_def RemoveRefAndPtr_def)

lemma remove_reference_wrap_free [simp]:
  "remove_reference_t (wrap_free rk p (Function R cc Args e c v r n))
     = pointer_to_cv p (Function R cc Args e c v r n)"
  by (cases rk; cases p) (auto simp: wrap_free_def)

lemma remove_reference_ref_MemberPointer [simp]:
  "remove_reference_t (reference_to rk (MemberPointer C f pc pv)) = MemberPointer C f pc pv"
  by (cases rk) auto

lemma remove_reference_ref_ClassType [simp]:
  "remove_reference_t (reference_to rk (ClassType K kc kv)) = ClassType K kc kv"
  by (cases rk) auto

lemma Private_IsFunctor_iff:
  "Private_IsFunctor decls F \<longleftrightarrow>
     (\<exists>K kc kv f. remove_reference_t F = ClassType K kc kv \<and> decls K = [CallOperator f])"
proof (cases "remove_reference_t F")
  case (ClassType K kc kv)
  then show ?thesis
    by (auto simp: Private_IsFunctor_def split: list.splits call_operator.splits)
qed (simp_all add: Private_IsFunctor_def)

lemma functor_shape:
  assumes "Private_IsFunctor decls F"
  obtains rk K kc kv f where "F = reference_to rk (ClassType K kc kv)" and "decls K = [CallOperator f]"
proof -
  from assms obtain K kc kv f where "remove_reference_t F = ClassType K kc kv"
    and d: "decls K = [CallOperator f]"
    by (auto simp: Private_IsFunctor_iff)
  then have "F = reference_to (reference_kind F) (ClassType K kc kv)"
    using reference_to_kind [of F] by simp
  with d that show ?thesis by blast
qed

lemma not_functor_wrap_free [simp]:
  "\<not> Private_IsFunctor decls (wrap_free rk p (Function R cc Args e c v r n))"
  by (cases p) (auto simp: Private_IsFunctor_iff)

lemma not_functor_ref_MemberPointer [simp]:
  "\<not> Private_IsFunctor decls (reference_to rk (MemberPointer C f pc pv))"
  by (auto simp: Private_IsFunctor_iff)

lemma functor_excludes:
  assumes "Private_IsFunctor decls F"
  shows "\<not> Private_IsFreeFunction (RemoveRefAndPtrAndCv F)"
    and "\<not> is_member_function_pointer_v (RemoveRefAndPtrAndCv F)"
  using assms by (auto elim!: functor_shape simp: Private_IsFreeFunction_iff)

lemma free_excludes_member:
  "Private_IsFreeFunction G \<Longrightarrow> \<not> is_member_function_pointer_v G"
  by (cases G) (auto simp: Private_IsFreeFunction_iff)

lemma FunctionTraits_cascade:
  "FunctionTraits tg decls F =
     (if Private_IsFreeFunction (RemoveRefAndPtrAndCv F)
      then FreeFunctionTraits tg F (RemoveRefAndPtrAndCv F)
      else if is_member_function_pointer_v (RemoveRefAndPtrAndCv F)
      then MemberFunctionTraits tg F (RemoveRefAndPtrAndCv F)
      else if Private_IsFunctor decls F
      then FunctorTraits tg decls (RemoveRefAndPtrAndCv F)
      else None)"
  using functor_excludes [of decls F] free_excludes_member [of "RemoveRefAndPtrAndCv F"]
  by (auto simp: FunctionTraits_def Let_def)

section \<open>\<open>FunctionTraits\<close> on the accepted shapes\<close>

lemma FunctionTraits_free:
  "FunctionTraits tg decls (wrap_free rk p (Function R cc Args e c v r n)) =
     (if \<not> c \<and> \<not> v \<and> r = NoRef \<and> applicable_free tg cc e
      then Some (free_traits (wrap_free rk p (Function R cc Args e c v r n)) R cc Args e n)
      else None)"
  by (auto simp: FunctionTraits_cascade Private_IsFreeFunction_iff FreeFunctionTraits_Function)

lemma FunctionTraits_member:
  "FunctionTraits tg decls (reference_to rk (MemberPointer C (Function R cc Args e c v r n) pc pv)) =
     (if applicable_member tg cc e
      then Some (member_traits (reference_to rk (MemberPointer C (Function R cc Args e c v r n) pc pv))
                   R cc C Args e c v r n False)
      else None)"
  by (simp add: FunctionTraits_cascade Private_IsFreeFunction_iff MemberFunctionTraits_MemberPointer
        del: MemberFunctionTraits.simps)

lemma member_traits_functor:
  "(member_traits F R cc C Args e c v r n False)
     \<lparr>base := (base (member_traits F R cc C Args e c v r n False))\<lparr>IsFunctor := True\<rparr>\<rparr>
   = member_traits F R cc C Args e c v r n True"
  by (simp add: member_traits_def)

lemma FunctionTraits_functor:
  assumes "decls K = [CallOperator (Function R cc Args e c v r n)]"
  shows "FunctionTraits tg decls (reference_to rk (ClassType K kc kv)) =
     (if applicable_member tg cc e
      then Some (member_traits (MemberPointer K (Function R cc Args e c v r n) False False)
                   R cc K Args e c v r n True)
      else None)"
proof -
  have "Private_IsFunctor decls (reference_to rk (ClassType K kc kv))"
    using assms by (auto simp: Private_IsFunctor_iff)
  then show ?thesis
    using assms
    by (simp add: FunctionTraits_cascade Private_IsFreeFunction_iff FunctorTraits_def
          MemberFunctionTraits_MemberPointer member_traits_functor is_reference_v_def
          del: MemberFunctionTraits.simps)
qed

lemma FunctionTraits_functor_not_function:
  assumes "decls K = [CallOperator f]" and "\<not> is_function_v f"
  shows "FunctionTraits tg decls (reference_to rk (ClassType K kc kv)) = None"
proof -
  have "Private_IsFunctor decls (reference_to rk (ClassType K kc kv))"
    using assms by (auto simp: Private_IsFunctor_iff)
  then show ?thesis
    using assms
    by (simp add: FunctionTraits_cascade Private_IsFreeFunction_iff FunctorTraits_def
          MemberFunctionTraits_not_function del: MemberFunctionTraits.simps)
qed

text \<open>Every successful instantiation is one of the three above.\<close>

lemma FunctionTraits_SomeE:
  assumes "FunctionTraits tg decls F = Some t"
  obtains
    (free_case) rk p R cc Args e n where
      "F = wrap_free rk p (Function R cc Args e False False NoRef n)"
      "applicable_free tg cc e"
      "t = free_traits F R cc Args e n"
  | (member_case) C R cc Args e c v r n where
      "RemoveRefAndPtrAndCv F = MemberPointer C (Function R cc Args e c v r n) False False"
      "\<not> Private_IsFunctor decls F"
      "applicable_member tg cc e"
      "t = member_traits F R cc C Args e c v r n False"
  | (functor_case) rk K kc kv R cc Args e c v r n where
      "F = reference_to rk (ClassType K kc kv)"
      "decls K = [CallOperator (Function R cc Args e c v r n)]"
      "applicable_member tg cc e"
      "t = member_traits (MemberPointer K (Function R cc Args e c v r n) False False)
             R cc K Args e c v r n True"
proof -
  let ?G = "RemoveRefAndPtrAndCv F"
  consider (a) "Private_IsFreeFunction ?G"
    | (b) "\<not> Private_IsFreeFunction ?G" "is_member_function_pointer_v ?G"
    | (c) "\<not> Private_IsFreeFunction ?G" "\<not> is_member_function_pointer_v ?G" "Private_IsFunctor decls F"
    | (d) "\<not> Private_IsFreeFunction ?G" "\<not> is_member_function_pointer_v ?G" "\<not> Private_IsFunctor decls F"
    by blast
  then show ?thesis
  proof cases
    case a
    then obtain R cc Args e n where G: "?G = Function R cc Args e False False NoRef n"
      by (cases ?G) (auto simp: Private_IsFreeFunction_iff)
    then obtain rk p where F: "F = wrap_free rk p (Function R cc Args e False False NoRef n)"
      using free_shape by blast
    from assms show ?thesis
      unfolding F FunctionTraits_free
      by (rule_tac free_case [of rk p R cc Args e n]) (auto simp: F split: if_splits)
  next
    case b
    then obtain C f pc pv where G: "?G = MemberPointer C f pc pv" and f: "is_function_v f"
      by (cases ?G) auto
    then have cv: "\<not> pc" "\<not> pv"
      by (auto simp: RemoveRefAndPtrAndCv_def remove_cv_MemberPointer)
    from f obtain R cc Args e c v r n where f': "f = Function R cc Args e c v r n"
      by (cases f) auto
    have nf: "\<not> Private_IsFunctor decls F"
      using b functor_excludes by blast
    from assms b G cv f' show ?thesis
      by (intro member_case [of C R cc Args e c v r n])
         (auto simp: FunctionTraits_cascade MemberFunctionTraits_MemberPointer nf
            simp del: MemberFunctionTraits.simps split: if_splits)
  next
    case c
    then obtain rk K kc kv f where F: "F = reference_to rk (ClassType K kc kv)"
      and d: "decls K = [CallOperator f]"
      using functor_shape by blast
    show ?thesis
    proof (cases "is_function_v f")
      case True
      then obtain R cc Args e c v r n where f': "f = Function R cc Args e c v r n"
        by (cases f) auto
      have d': "decls K = [CallOperator (Function R cc Args e c v r n)]"
        using d f' by simp
      from assms show ?thesis
        unfolding F FunctionTraits_functor [where decls = decls and K = K, OF d']
        by (intro functor_case [of rk K kc kv R cc Args e c v r n])
           (use d' in \<open>auto simp: F split: if_splits\<close>)
    next
      case False
      with assms d show ?thesis
        by (simp add: F FunctionTraits_functor_not_function)
    qed
  next
    case d
    with assms show ?thesis
      by (simp add: FunctionTraits_cascade)
  qed
qed


lemma member_shape:
  assumes "RemoveRefAndPtrAndCv F = MemberPointer C f False False"
    and "IsTraitsFunction decls F"
  obtains rk pc pv where "F = reference_to rk (MemberPointer C f pc pv)"
proof -
  have nf: "\<not> Private_IsFreeFunction (RemoveRefAndPtr F)"
    using assms(1)
    by (cases "RemoveRefAndPtr F") (auto simp: Private_IsFreeFunction_iff RemoveRefAndPtrAndCv_def)
  have nc: "\<not> Private_IsFunctor decls F"
    using assms(1) by (auto elim!: functor_shape)
  from assms(2) nf nc have "is_member_function_pointer_v (remove_reference_t F)"
    by (simp add: IsTraitsFunction_def)
  then obtain C' f' pc pv where U: "remove_reference_t F = MemberPointer C' f' pc pv"
    by (cases "remove_reference_t F") auto
  with assms(1) have "C' = C" "f' = f"
    by (simp_all add: RemoveRefAndPtrAndCv_def RemoveRefAndPtr_def)
  with U have "F = reference_to (reference_kind F) (MemberPointer C f pc pv)"
    using reference_to_kind [of F] by simp
  then show ?thesis by (rule that)
qed

lemma acceptable_SomeE:
  assumes "FunctionTraits tg decls F = Some t" and "IsTraitsFunction decls F"
  obtains
    (free_case) rk p R cc Args e n where
      "F = wrap_free rk p (Function R cc Args e False False NoRef n)"
      "applicable_free tg cc e"
      "t = free_traits F R cc Args e n"
  | (member_case) rk C pc pv R cc Args e c v r n where
      "F = reference_to rk (MemberPointer C (Function R cc Args e c v r n) pc pv)"
      "applicable_member tg cc e"
      "t = member_traits F R cc C Args e c v r n False"
  | (functor_case) rk K kc kv R cc Args e c v r n where
      "F = reference_to rk (ClassType K kc kv)"
      "decls K = [CallOperator (Function R cc Args e c v r n)]"
      "applicable_member tg cc e"
      "t = member_traits (MemberPointer K (Function R cc Args e c v r n) False False)
             R cc K Args e c v r n True"
  using assms(1)
proof (cases rule: FunctionTraits_SomeE)
  case (free_case rk p R cc Args e n)
  then show ?thesis by (rule that(1))
next
  case (member_case C R cc Args e c v r n)
  from member_shape [OF member_case(1) assms(2)]
  obtain rk pc pv where "F = reference_to rk (MemberPointer C (Function R cc Args e c v r n) pc pv)"
    by blast
  from this member_case(3,4) show ?thesis by (rule that(2))
next
  case (functor_case rk K kc kv R cc Args e c v r n)
  then show ?thesis by (rule that(3))
qed

section \<open>Re-applying the wrapping\<close>

lemma MigratePointerAndRef_wrap_free:
  "MigratePointerAndRef (wrap_free rk p (Function R cc Args e c v r n))
      (Function R' cc' Args' e' False False NoRef n')
   = wrap_free rk p (Function R' cc' Args' e' False False NoRef n')"
  by (cases rk; cases p)
     (auto simp: MigratePointerAndRef_def MigrateRef_def MigrateCv_def MigrateConst_def
        MigrateVolatile_def conditional_t_def add_pointer_t_def is_referenceable_def wrap_free_def)

lemma MigrateCvAndRef_ref_MemberPointer:
  "MigrateCvAndRef (reference_to rk (MemberPointer C f pc pv)) (MemberPointer C' f' False False)
   = reference_to rk (MemberPointer C' f' pc pv)"
  by (cases rk)
     (auto simp: MigrateCvAndRef_def MigrateRef_def MigrateCv_def MigrateConst_def
        MigrateVolatile_def conditional_t_def is_referenceable_def)



lemma free_function_type_applicable:
  "applicable_free tg cc e \<Longrightarrow>
   free_function_type tg R cc Args e' n = Function R cc Args e' False False NoRef n"
  by (auto simp: free_function_type_def applicable_free_def)

lemma free_function_type_Cdecl:
  "free_function_type tg R Cdecl Args e n = Function R Cdecl Args e False False NoRef n"
  by (simp add: free_function_type_def)

lemma member_function_pointer_type_applicable:
  "applicable_member tg cc e \<Longrightarrow>
   member_function_pointer_type tg R cc C Args e' c v r n
     = MemberPointer C (Function R cc Args e' c v r n) False False"
  by (auto simp: member_function_pointer_type_def applicable_member_def)

lemma member_function_pointer_type_Cdecl:
  "member_function_pointer_type tg R Cdecl C Args e c v r n
     = MemberPointer C (Function R Cdecl Args e c v r n) False False"
  by (simp add: member_function_pointer_type_def)

lemma applicable_variadic: "applicable_free tg cc True \<Longrightarrow> cc = Cdecl"
  "applicable_member tg cc True \<Longrightarrow> cc = Cdecl"
  by (auto simp: applicable_free_def applicable_member_def)

lemma ReplaceNthType_list_update:
  "ReplaceNthType N NewT Ts = (if N < length Ts then Some (Ts[N := NewT]) else None)"
proof -
  have "map (\<lambda>(Ints, T). conditional_t (Ints = N) NewT T) (zip [0..<length Ts] Ts) = Ts[N := NewT]"
    by (rule nth_equalityI) (auto simp: conditional_t_def nth_list_update)
  then show ?thesis by (simp add: ReplaceNthType_def)
qed

lemma declares_of_specialization_for [simp]:
  "declares_ellipsis (macro_ARGS (specialization_for cc e c v r n)) = e"
  "declares_const (macro_CONST (specialization_for cc e c v r n)) = c"
  "declares_volatile (macro_VOLATILE (specialization_for cc e c v r n)) = v"
  "declares_ref (macro_REF (specialization_for cc e c v r n)) = r"
  "macro_IS_NOEXCEPT (specialization_for cc e c v r n) = n"
  "macro_CC (specialization_for cc e c v r n) = cc"
  "macro_CALLING_CONVENTION (specialization_for cc e c v r n) = cc"
  "macro_REPLACE_CALLING_CONVENTION (specialization_for cc e c v r n)
     = (if e then VariadicOnly else TupleElement)"
  by (cases r; simp add: specialization_for_def declares_ellipsis_def declares_const_def
        declares_volatile_def declares_ref_def)+

lemma free_traits_sel [simp]:
  "base (free_traits F R cc Args e n) =
     \<lparr>Type = F, ReturnType = R, CallingConvention = cc, IsVariadic = e,
      Class = Void, IsConst = False, IsVolatile = False, RefQualifier = NoRef,
      IsNoexcept = n, ArgTypes = Args, IsFunctor = False\<rparr>"
  "arg_F (free_traits F R cc Args e n) = F"
  "arg_R (free_traits F R cc Args e n) = R"
  "arg_Args (free_traits F R cc Args e n) = Args"
  "spec (free_traits F R cc Args e n) = specialization_for cc e False False NoRef n"
  "of_member (free_traits F R cc Args e n) = False"
  by (simp_all add: free_traits_def)

lemma member_traits_sel [simp]:
  "base (member_traits F R cc C Args e c v r n fo) =
     \<lparr>Type = F, ReturnType = R, CallingConvention = cc, IsVariadic = e,
      Class = ClassType C False False, IsConst = c, IsVolatile = v, RefQualifier = r,
      IsNoexcept = n, ArgTypes = Args, IsFunctor = fo\<rparr>"
  "arg_F (member_traits F R cc C Args e c v r n fo) = F"
  "arg_R (member_traits F R cc C Args e c v r n fo) = R"
  "arg_C (member_traits F R cc C Args e c v r n fo) = C"
  "arg_Args (member_traits F R cc C Args e c v r n fo) = Args"
  "spec (member_traits F R cc C Args e c v r n fo) = specialization_for cc e c v r n"
  "of_member (member_traits F R cc C Args e c v r n fo) = True"
  by (simp_all add: member_traits_def)

section \<open>Instances on the concrete inputs\<close>

lemma K_functor:
  "FunctionTraits tg K_program (reference_to rk (ClassType ''K'' kc kv)) =
     Some (member_traits (MemberPointer ''K'' K_call_operator False False)
             Void Cdecl ''K'' [int_type] False True False NoRef True True)"
  using FunctionTraits_functor [of K_program "''K''" Void Cdecl "[int_type]" False True False NoRef True tg rk kc kv]
  by (simp add: K_program_def K_call_operator_def applicable_member_def)

lemma K_member_pointer:
  "FunctionTraits tg K_program (reference_to rk (MemberPointer ''K'' K_call_operator pc pv)) =
     Some (member_traits (reference_to rk (MemberPointer ''K'' K_call_operator pc pv))
             Void Cdecl ''K'' [int_type] False True False NoRef True False)"
  using FunctionTraits_member [of tg K_program rk "''K''" Void Cdecl "[int_type]" False True False NoRef True pc pv]
  by (simp add: K_call_operator_def applicable_member_def)

lemma int_double_int_free:
  "FunctionTraits tg decls (wrap_free rk p int_double_int) =
     Some (free_traits (wrap_free rk p int_double_int) int_type Cdecl [double_type, int_type] False False)"
  using FunctionTraits_free [of tg decls rk p int_type Cdecl "[double_type, int_type]" False False False NoRef False]
  by (simp add: int_double_int_def applicable_free_def)

section \<open>Properties of the classification\<close>

text \<open>
  Claim C10. The member \<open>Type\<close> of a classification is the type \<open>F\<close> that was passed,
  with its outer reference, pointer and pointer-level cv-qualifiers, whenever \<open>F\<close> is not a
  functor or a reference to one; for a functor (or a reference to one) it is instead
  \<open>decltype(&F::operator())\<close>, the pointer to the call operator, and not the type passed.
\<close>

theorem Type_member:
  assumes "FunctionTraits tg decls F = Some t"
  shows "(\<not> Private_IsFunctor decls F \<longrightarrow> Type (base t) = F) \<and>
         (Private_IsFunctor decls F \<longrightarrow>
            address_of_call_operator decls (remove_reference_t F) = Some (Type (base t)) \<and>
            Type (base t) \<noteq> F)"
  using assms
proof (cases rule: FunctionTraits_SomeE)
  case (free_case rk p R cc Args e n)
  then show ?thesis by simp
next
  case (member_case C R cc Args e c v r n)
  then show ?thesis by simp
next
  case (functor_case rk K kc kv R cc Args e c v r n)
  have "Private_IsFunctor decls F"
    using functor_case by (auto simp: Private_IsFunctor_iff)
  moreover have "MemberPointer K (Function R cc Args e c v r n) False False \<noteq> F"
    using functor_case(1) by (cases rk) auto
  ultimately show ?thesis
    using functor_case by simp
qed

theorem Type_member_witness:
  "map_option (Type \<circ> base) (FunctionTraits target_64 K_program (LValueReference (ClassType ''K'' True False)))
     = Some (MemberPointer ''K'' K_call_operator False False) \<and>
   map_option (Type \<circ> base) (FunctionTraits target_64 K_program (Pointer int_double_int True False))
     = Some (Pointer int_double_int True False)"
proof -
  let ?F = "LValueReference (ClassType ''K'' True False)"
  let ?P = "Pointer int_double_int True False"
  obtain t where t: "FunctionTraits target_64 K_program ?F = Some t"
    using K_functor [of target_64 LValue True False] by simp
  have f: "Private_IsFunctor K_program ?F"
    by (simp add: Private_IsFunctor_def K_program_def)
  obtain u where u: "FunctionTraits target_64 K_program ?P = Some u"
    using int_double_int_free [of target_64 K_program NoRef "Some (True, False)"]
    by (simp add: wrap_free_def)
  have g: "\<not> Private_IsFunctor K_program ?P"
    by (simp add: Private_IsFunctor_def)
  show ?thesis
    using Type_member [OF t] Type_member [OF u] f g t u
    by (simp add: K_program_def)
qed

text \<open>
  Claim C6. In every classification, \<open>Class\<close> is \<open>void\<close> exactly when the analysed callable
  is not a non-static member function, that is when \<open>F\<close> is a free function or a pointer
  or reference to one; \<open>IsMemberFunction\<close> is that \<open>Class\<close> is not \<open>void\<close> and
  \<open>IsFreeFunction\<close> its negation; and when \<open>Class\<close> is \<open>void\<close>, \<open>IsConst\<close> and \<open>IsVolatile\<close>
  are false and \<open>RefQualifier\<close> is \<open>RefQualifier::None\<close>.
\<close>

theorem classification_invariant:
  assumes "FunctionTraits tg decls F = Some t"
  shows "(Class (base t) = Void \<longleftrightarrow> Private_IsFreeFunction (RemoveRefAndPtrAndCv F)) \<and>
         IsMemberFunction (base t) = (Class (base t) \<noteq> Void) \<and>
         IsFreeFunction (base t) = (\<not> IsMemberFunction (base t)) \<and>
         (Class (base t) = Void \<longrightarrow>
            \<not> IsConst (base t) \<and> \<not> IsVolatile (base t) \<and> RefQualifier (base t) = NoRef)"
  using assms
proof (cases rule: FunctionTraits_SomeE)
  case (free_case rk p R cc Args e n)
  then show ?thesis
    by (simp add: IsMemberFunction_def IsFreeFunction_def Private_IsFreeFunction_iff)
next
  case (member_case C R cc Args e c v r n)
  then show ?thesis
    by (simp add: IsMemberFunction_def IsFreeFunction_def Private_IsFreeFunction_iff)
next
  case (functor_case rk K kc kv R cc Args e c v r n)
  then show ?thesis
    by (simp add: IsMemberFunction_def IsFreeFunction_def Private_IsFreeFunction_iff)
qed

theorem classification_invariant_witness:
  "map_option (\<lambda>t. (Class (base t), IsMemberFunction (base t), IsFreeFunction (base t),
                    IsConst (base t), IsVolatile (base t), RefQualifier (base t)))
     (FunctionTraits target_64 K_program (Pointer int_double_int True False))
     = Some (Void, False, True, False, False, NoRef) \<and>
   map_option (\<lambda>t. (Class (base t), IsMemberFunction (base t), IsFreeFunction (base t)))
     (FunctionTraits target_64 K_program (ClassType ''K'' False False))
     = Some (ClassType ''K'' False False, True, False)"
proof -
  let ?F = "ClassType ''K'' False False"
  let ?P = "Pointer int_double_int True False"
  obtain t where t: "FunctionTraits target_64 K_program ?F = Some t"
    using K_functor [of target_64 NoRef False False] by simp
  obtain u where u: "FunctionTraits target_64 K_program ?P = Some u"
    using int_double_int_free [of target_64 K_program NoRef "Some (True, False)"]
    by (simp add: wrap_free_def)
  have c: "Class (base t) = ClassType ''K'' False False"
    using t K_functor [of target_64 NoRef False False] by auto
  have p: "Private_IsFreeFunction (RemoveRefAndPtrAndCv ?P)"
    by (simp add: Private_IsFreeFunction_iff RemoveRefAndPtrAndCv_def RemoveRefAndPtr_def int_double_int_def)
  show ?thesis
    using classification_invariant [OF t] classification_invariant [OF u] t u c p
    by simp
qed

lemma functor_and_member_pointer_base:
  assumes "decls K = [CallOperator f]"
  shows "map_option base (FunctionTraits tg decls (reference_to rk (ClassType K kc kv)))
       = map_option (\<lambda>t. (base t)\<lparr>IsFunctor := True\<rparr>)
           (FunctionTraits tg decls (MemberPointer K f False False))"
proof (cases "is_function_v f")
  case True
  then obtain R cc Args e c v r n where f: "f = Function R cc Args e c v r n"
    by (cases f) auto
  show ?thesis
    using FunctionTraits_functor [of decls K R cc Args e c v r n tg rk kc kv]
      FunctionTraits_member [of tg decls NoRef K R cc Args e c v r n False False] assms
    by (simp add: f)
next
  case False
  have "FunctionTraits tg decls (MemberPointer K f False False) = None"
    using False
    by (simp add: FunctionTraits_cascade Private_IsFreeFunction_iff RemoveRefAndPtrAndCv_def
          RemoveRefAndPtr_def Private_IsFunctor_def)
  then show ?thesis
    using FunctionTraits_functor_not_function [where decls = decls and K = K, OF assms False] by simp
qed

lemma classification_IsFunctor_update:
  "classification (b\<lparr>IsFunctor := x\<rparr>) = classification b"
  by (simp add: classification_def ArgCount_def IsMemberFunction_def IsFreeFunction_def)

text \<open>
  Claim C8. For a class \<open>K\<close> with exactly one call operator, not a template, classifying
  \<open>K\<close> (or a reference to \<open>K\<close>) and classifying the pointer to member function
  \<open>decltype(&K::operator())\<close> succeed or fail together, and every attribute of the two
  classifications coincides: \<open>Type\<close>, \<open>ReturnType\<close>, \<open>CallingConvention\<close>, \<open>ArgTypes\<close>,
  \<open>ArgCount\<close>, \<open>IsVariadic\<close>, \<open>IsNoexcept\<close>, \<open>Class\<close>, \<open>IsMemberFunction\<close>,
  \<open>IsFreeFunction\<close>, \<open>IsConst\<close>, \<open>IsVolatile\<close> and \<open>RefQualifier\<close>.
\<close>

theorem functor_and_member_pointer:
  assumes "decls K = [CallOperator f]"
  shows "map_option (classification \<circ> base)
           (FunctionTraits tg decls (reference_to rk (ClassType K kc kv)))
       = map_option (classification \<circ> base)
           (FunctionTraits tg decls (MemberPointer K f False False))"
proof -
  have "map_option (classification \<circ> base)
          (FunctionTraits tg decls (reference_to rk (ClassType K kc kv)))
      = map_option classification
          (map_option base (FunctionTraits tg decls (reference_to rk (ClassType K kc kv))))"
    by (simp add: option.map_comp)
  also have "\<dots> = map_option classification
      (map_option (\<lambda>t. (base t)\<lparr>IsFunctor := True\<rparr>)
         (FunctionTraits tg decls (MemberPointer K f False False)))"
    by (simp only: functor_and_member_pointer_base [where decls = decls and K = K, OF assms])
  also have "\<dots> = map_option (classification \<circ> base)
      (FunctionTraits tg decls (MemberPointer K f False False))"
    by (simp add: option.map_comp comp_def classification_IsFunctor_update)
  finally show ?thesis .
qed

theorem functor_and_member_pointer_witness:
  "map_option (classification \<circ> base)
     (FunctionTraits target_64 K_program (LValueReference (ClassType ''K'' True False)))
     = map_option (classification \<circ> base)
         (FunctionTraits target_64 K_program (MemberPointer ''K'' K_call_operator False False)) \<and>
   map_option (classification \<circ> base)
     (FunctionTraits target_64 K_program (MemberPointer ''K'' K_call_operator False False))
     = Some (MemberPointer ''K'' K_call_operator False False, Void, Cdecl, [int_type], 1, False,
             True, ClassType ''K'' False False, True, False, True, False, NoRef)"
  using functor_and_member_pointer [of K_program "''K''" K_call_operator target_64 LValue True False]
    K_member_pointer [of target_64 NoRef False False]
  by (simp add: K_program_def classification_def ArgCount_def IsMemberFunction_def
        IsFreeFunction_def)

section \<open>Round trip\<close>

lemma cv_qualified_MemberPointer:
  "cv_qualified pc pv (MemberPointer C f False False) = MemberPointer C f pc pv"
  by (simp add: cv_qualified_def)

lemma address_of_call_operator_Some:
  "address_of_call_operator decls (ClassType K kc kv) = Some (MemberPointer K' f pc pv) \<Longrightarrow>
   decls K = [CallOperator f]"
  by (auto split: list.splits call_operator.splits)

text \<open>
  Claim C1. Take a calling convention and a variadic flag that the target accepts for the
  category (\<open>applicable_free\<close>, \<open>applicable_member\<close>), and any return type, parameter
  types, noexcept flag and, for a member function, class, const, volatile and reference
  qualifier. Build the type from them: a free function, alone or behind a pointer (with
  any cv on the pointer), a reference, or a reference to pointer; a pointer to member
  function (with any cv on the pointer), alone or behind a reference; a class whose only
  call operator has that type, alone or behind a reference. Then \<open>FunctionTraits\<close> is
  defined on that type and its members \<open>ReturnType\<close>, \<open>ArgTypes\<close>, \<open>ArgCount\<close>,
  \<open>CallingConvention\<close>, \<open>IsVariadic\<close>, \<open>IsNoexcept\<close>, \<open>Class\<close>, \<open>IsConst\<close>,
  \<open>IsVolatile\<close> and \<open>RefQualifier\<close> are exactly the attributes the type was built from
  (for a free function, \<open>Class\<close> is void and the three qualifiers are absent).
\<close>

theorem round_trip:
  "(applicable_free tg cc e \<longrightarrow>
      (\<exists>t. FunctionTraits tg decls (wrap_free rk p (free_function_type tg R cc Args e n)) = Some t \<and>
           base t = \<lparr>Type = wrap_free rk p (free_function_type tg R cc Args e n),
                     ReturnType = R, CallingConvention = cc, IsVariadic = e,
                     Class = Void, IsConst = False, IsVolatile = False, RefQualifier = NoRef,
                     IsNoexcept = n, ArgTypes = Args, IsFunctor = False\<rparr> \<and>
           ArgCount (base t) = length Args)) \<and>
   (applicable_member tg cc e \<longrightarrow>
      (\<exists>t. FunctionTraits tg decls
             (reference_to rk (cv_qualified pc pv (member_function_pointer_type tg R cc C Args e c v r n)))
             = Some t \<and>
           base t = \<lparr>Type = reference_to rk
                              (cv_qualified pc pv (member_function_pointer_type tg R cc C Args e c v r n)),
                     ReturnType = R, CallingConvention = cc, IsVariadic = e,
                     Class = ClassType C False False, IsConst = c, IsVolatile = v, RefQualifier = r,
                     IsNoexcept = n, ArgTypes = Args, IsFunctor = False\<rparr> \<and>
           ArgCount (base t) = length Args)) \<and>
   (applicable_member tg cc e \<and>
    address_of_call_operator decls (ClassType K kc kv)
      = Some (member_function_pointer_type tg R cc K Args e c v r n) \<longrightarrow>
      (\<exists>t. FunctionTraits tg decls (reference_to rk (ClassType K kc kv)) = Some t \<and>
           base t = \<lparr>Type = member_function_pointer_type tg R cc K Args e c v r n,
                     ReturnType = R, CallingConvention = cc, IsVariadic = e,
                     Class = ClassType K False False, IsConst = c, IsVolatile = v, RefQualifier = r,
                     IsNoexcept = n, ArgTypes = Args, IsFunctor = True\<rparr> \<and>
           ArgCount (base t) = length Args))"
proof (intro conjI impI)
  assume a: "applicable_free tg cc e"
  show "\<exists>t. FunctionTraits tg decls (wrap_free rk p (free_function_type tg R cc Args e n)) = Some t \<and>
           base t = \<lparr>Type = wrap_free rk p (free_function_type tg R cc Args e n),
                     ReturnType = R, CallingConvention = cc, IsVariadic = e,
                     Class = Void, IsConst = False, IsVolatile = False, RefQualifier = NoRef,
                     IsNoexcept = n, ArgTypes = Args, IsFunctor = False\<rparr> \<and>
           ArgCount (base t) = length Args"
    using a by (simp add: free_function_type_applicable FunctionTraits_free ArgCount_def)
next
  assume a: "applicable_member tg cc e"
  show "\<exists>t. FunctionTraits tg decls
             (reference_to rk (cv_qualified pc pv (member_function_pointer_type tg R cc C Args e c v r n)))
             = Some t \<and>
           base t = \<lparr>Type = reference_to rk
                              (cv_qualified pc pv (member_function_pointer_type tg R cc C Args e c v r n)),
                     ReturnType = R, CallingConvention = cc, IsVariadic = e,
                     Class = ClassType C False False, IsConst = c, IsVolatile = v, RefQualifier = r,
                     IsNoexcept = n, ArgTypes = Args, IsFunctor = False\<rparr> \<and>
           ArgCount (base t) = length Args"
    using a
    by (simp add: member_function_pointer_type_applicable cv_qualified_MemberPointer
          FunctionTraits_member ArgCount_def)
next
  assume a: "applicable_member tg cc e \<and>
    address_of_call_operator decls (ClassType K kc kv)
      = Some (member_function_pointer_type tg R cc K Args e c v r n)"
  then have ap: "applicable_member tg cc e"
    by (rule conjunct1)
  then have m: "member_function_pointer_type tg R cc K Args e c v r n
      = MemberPointer K (Function R cc Args e c v r n) False False"
    by (rule member_function_pointer_type_applicable)
  from a have "address_of_call_operator decls (ClassType K kc kv)
      = Some (MemberPointer K (Function R cc Args e c v r n) False False)"
    unfolding m by (rule conjunct2)
  then have d: "decls K = [CallOperator (Function R cc Args e c v r n)]"
    by (rule address_of_call_operator_Some)
  show "\<exists>t. FunctionTraits tg decls (reference_to rk (ClassType K kc kv)) = Some t \<and>
           base t = \<lparr>Type = member_function_pointer_type tg R cc K Args e c v r n,
                     ReturnType = R, CallingConvention = cc, IsVariadic = e,
                     Class = ClassType K False False, IsConst = c, IsVolatile = v, RefQualifier = r,
                     IsNoexcept = n, ArgTypes = Args, IsFunctor = True\<rparr> \<and>
           ArgCount (base t) = length Args"
    using ap FunctionTraits_functor [where decls = decls and K = K, OF d]
    by (simp add: m ArgCount_def)
qed

theorem round_trip_witness:
  "(\<exists>t. FunctionTraits target_32 K_program
          (wrap_free LValue (Some (True, False))
             (free_function_type target_32 int_type Stdcall [double_type] False True)) = Some t \<and>
        base t = \<lparr>Type = LValueReference (Pointer
                            (Function int_type Stdcall [double_type] False False False NoRef True)
                            True False),
                  ReturnType = int_type, CallingConvention = Stdcall, IsVariadic = False,
                  Class = Void, IsConst = False, IsVolatile = False, RefQualifier = NoRef,
                  IsNoexcept = True, ArgTypes = [double_type], IsFunctor = False\<rparr> \<and>
        ArgCount (base t) = Suc 0) \<and>
   (\<exists>t. FunctionTraits target_32 K_program
          (reference_to RValue (cv_qualified True False
             (member_function_pointer_type target_32 Void Thiscall ''K'' [int_type, int_type]
                False False True LValue False))) = Some t \<and>
        base t = \<lparr>Type = RValueReference (MemberPointer ''K''
                            (Function Void Thiscall [int_type, int_type] False False True LValue False)
                            True False),
                  ReturnType = Void, CallingConvention = Thiscall, IsVariadic = False,
                  Class = ClassType ''K'' False False, IsConst = False, IsVolatile = True,
                  RefQualifier = LValue, IsNoexcept = False, ArgTypes = [int_type, int_type],
                  IsFunctor = False\<rparr> \<and>
        ArgCount (base t) = Suc (Suc 0)) \<and>
   (\<exists>t. FunctionTraits target_32 K_program (reference_to LValue (ClassType ''K'' True False)) = Some t \<and>
        base t = \<lparr>Type = MemberPointer ''K'' K_call_operator False False,
                  ReturnType = Void, CallingConvention = Cdecl, IsVariadic = False,
                  Class = ClassType ''K'' False False, IsConst = True, IsVolatile = False,
                  RefQualifier = NoRef, IsNoexcept = True, ArgTypes = [int_type],
                  IsFunctor = True\<rparr> \<and>
        ArgCount (base t) = Suc 0)"
proof (intro conjI)
  show "\<exists>t. FunctionTraits target_32 K_program
          (wrap_free LValue (Some (True, False))
             (free_function_type target_32 int_type Stdcall [double_type] False True)) = Some t \<and>
        base t = \<lparr>Type = LValueReference (Pointer
                            (Function int_type Stdcall [double_type] False False False NoRef True)
                            True False),
                  ReturnType = int_type, CallingConvention = Stdcall, IsVariadic = False,
                  Class = Void, IsConst = False, IsVolatile = False, RefQualifier = NoRef,
                  IsNoexcept = True, ArgTypes = [double_type], IsFunctor = False\<rparr> \<and>
        ArgCount (base t) = Suc 0"
    using round_trip [where tg = target_32 and cc = Stdcall and e = False and decls = K_program
        and rk = LValue and p = "Some (True, False)" and R = int_type and Args = "[double_type]"
        and n = True, THEN conjunct1]
    by (simp add: applicable_free_def target_32_def wrap_free_def free_function_type_def)
  show "\<exists>t. FunctionTraits target_32 K_program
          (reference_to RValue (cv_qualified True False
             (member_function_pointer_type target_32 Void Thiscall ''K'' [int_type, int_type]
                False False True LValue False))) = Some t \<and>
        base t = \<lparr>Type = RValueReference (MemberPointer ''K''
                            (Function Void Thiscall [int_type, int_type] False False True LValue False)
                            True False),
                  ReturnType = Void, CallingConvention = Thiscall, IsVariadic = False,
                  Class = ClassType ''K'' False False, IsConst = False, IsVolatile = True,
                  RefQualifier = LValue, IsNoexcept = False, ArgTypes = [int_type, int_type],
                  IsFunctor = False\<rparr> \<and>
        ArgCount (base t) = Suc (Suc 0)"
    using round_trip [where tg = target_32 and cc = Thiscall and e = False and decls = K_program
        and rk = RValue and pc = True and pv = False and R = Void and Args = "[int_type, int_type]"
        and C = "''K''" and c = False and v = True and r = LValue
        and n = False, THEN conjunct2, THEN conjunct1]
    by (simp add: applicable_member_def target_32_def member_function_pointer_type_def
          cv_qualified_def)
  show "\<exists>t. FunctionTraits target_32 K_program (reference_to LValue (ClassType ''K'' True False)) = Some t \<and>
        base t = \<lparr>Type = MemberPointer ''K'' K_call_operator False False,
                  ReturnType = Void, CallingConvention = Cdecl, IsVariadic = False,
                  Class = ClassType ''K'' False False, IsConst = True, IsVolatile = False,
                  RefQualifier = NoRef, IsNoexcept = True, ArgTypes = [int_type],
                  IsFunctor = True\<rparr> \<and>
        ArgCount (base t) = Suc 0"
    using round_trip [where tg = target_32 and cc = Cdecl and e = False and decls = K_program
        and rk = LValue and R = Void and Args = "[int_type]"
        and K = "''K''" and kc = True and kv = False and c = True and v = False and r = NoRef
        and n = True, THEN conjunct2, THEN conjunct2]
    by (simp add: applicable_member_def member_function_pointer_type_def
          K_program_def K_call_operator_def)
qed

section \<open>The write traits on the accepted shapes\<close>

lemma alias_t_free:
  "applicable_free tg cc e \<Longrightarrow>
   alias_t tg decls (wrap_free rk p (Function R cc Args e False False NoRef n)) w
     = FreeFunctionTraits_alias tg
         (free_traits (wrap_free rk p (Function R cc Args e False False NoRef n)) R cc Args e n) w"
  by (simp add: alias_t_def FunctionTraits_free FunctionTraits_alias_def)

lemma alias_t_member:
  "applicable_member tg cc e \<Longrightarrow>
   alias_t tg decls (reference_to rk (MemberPointer C (Function R cc Args e c v r n) pc pv)) w
     = MemberFunctionTraits_alias tg
         (member_traits (reference_to rk (MemberPointer C (Function R cc Args e c v r n) pc pv))
            R cc C Args e c v r n False) w"
  by (simp add: alias_t_def FunctionTraits_member FunctionTraits_alias_def)

lemma alias_t_functor:
  "decls K = [CallOperator (Function R cc Args e c v r n)] \<Longrightarrow> applicable_member tg cc e \<Longrightarrow>
   alias_t tg decls (reference_to rk (ClassType K kc kv)) w
     = MemberFunctionTraits_alias tg
         (member_traits (MemberPointer K (Function R cc Args e c v r n) False False)
            R cc K Args e c v r n True) w"
  by (simp add: alias_t_def FunctionTraits_functor FunctionTraits_alias_def)

lemma migrated_free_function_type:
  "applicable_free tg cc e \<Longrightarrow>
   MigratePointerAndRef (wrap_free rk p (Function R cc Args e False False NoRef n))
      (free_function_type tg R' cc Args' e' n')
   = wrap_free rk p (Function R' cc Args' e' False False NoRef n')"
  by (simp add: free_function_type_applicable MigratePointerAndRef_wrap_free)

lemma member_type_of_member:
  "applicable_member tg cc e \<Longrightarrow>
   member_type_of tg (member_traits (reference_to rk (MemberPointer C0 f pc pv)) R0 cc0 C1 Args0 e0 c0 v0 r0 n0 fo)
      R cc C Args e' c v r n
   = Some (reference_to rk (MemberPointer C (Function R cc Args e' c v r n) pc pv))"
  by (simp add: member_type_of_def member_function_pointer_type_applicable
        MigrateCvAndRef_ref_MemberPointer)

lemma member_type_of_functor:
  "applicable_member tg cc e \<Longrightarrow>
   member_type_of tg (member_traits (MemberPointer C0 f False False) R0 cc0 C1 Args0 e0 c0 v0 r0 n0 fo)
      R cc C Args e' c v r n
   = Some (MemberPointer C (Function R cc Args e' c v r n) False False)"
  using member_type_of_member [of tg cc e NoRef C0 f False False] by simp

lemma parameter_types_length:
  "parameter_types Ts = Some Params \<Longrightarrow> length Params = length Ts"
  by (induction Ts arbitrary: Params) (auto split: option.splits)


lemma FreeFunctionTraits_ReplaceArgs_free:
  assumes "applicable_free tg cc e"
  shows "FreeFunctionTraits_ReplaceArgs tg
           (free_traits (wrap_free rk p (Function R cc Args e False False NoRef n)) R cc Args e n)
           NewArgsT
         = map_option (\<lambda>Params. wrap_free rk p (Function R cc Params e False False NoRef n))
             (parameter_types NewArgsT)"
proof (cases e)
  case True
  with assms have "cc = Cdecl" by (simp add: applicable_variadic)
  with True show ?thesis
    by (simp add: FreeFunctionTraits_ReplaceArgs_def conditional_t_def STDEXT_CC_VARIADIC_def
          free_function_type_Cdecl MigratePointerAndRef_wrap_free split: option.splits)
next
  case False
  with assms show ?thesis
    by (simp add: FreeFunctionTraits_ReplaceArgs_def conditional_t_def
          free_function_type_applicable MigratePointerAndRef_wrap_free split: option.splits)
qed

lemma MemberFunctionTraits_ReplaceArgs_member:
  assumes "applicable_member tg cc e"
  shows "MemberFunctionTraits_ReplaceArgs tg
           (member_traits (reference_to rk (MemberPointer C0 f pc pv)) R cc C Args e c v r n fo)
           NewArgsT
         = map_option
             (\<lambda>Params. reference_to rk (MemberPointer C (Function R cc Params e c v r n) pc pv))
             (parameter_types NewArgsT)"
proof (cases e)
  case True
  with assms have cc: "cc = Cdecl" by (simp add: applicable_variadic)
  show ?thesis
    using True member_type_of_member [OF assms]
    by (simp add: MemberFunctionTraits_ReplaceArgs_def cc STDEXT_CC_VARIADIC_def
          split: option.splits)
next
  case False
  then show ?thesis
    using member_type_of_member [OF assms]
    by (simp add: MemberFunctionTraits_ReplaceArgs_def split: option.splits)
qed

lemma MemberFunctionTraits_ReplaceArgs_functor:
  assumes "applicable_member tg cc e"
  shows "MemberFunctionTraits_ReplaceArgs tg
           (member_traits (MemberPointer C0 f False False) R cc C Args e c v r n fo) NewArgsT
         = map_option (\<lambda>Params. MemberPointer C (Function R cc Params e c v r n) False False)
             (parameter_types NewArgsT)"
  using MemberFunctionTraits_ReplaceArgs_member [OF assms, of NoRef C0 f False False] by simp


lemma ReplaceNthArg_free:
  assumes "applicable_free tg cc e" and "N < length Args"
  shows "alias_t tg decls (wrap_free rk p (Function R cc Args e False False NoRef n))
           (ReplaceNthArg N NewArgT)
         = map_option (\<lambda>Params. wrap_free rk p (Function R cc Params e False False NoRef n))
             (parameter_types (Args[N := NewArgT]))"
  using assms
  by (simp add: alias_t_free ReplaceNthType_list_update FreeFunctionTraits_ReplaceArgs_free)

lemma ReplaceNthArg_member:
  assumes "applicable_member tg cc e" and "N < length Args"
  shows "alias_t tg decls (reference_to rk (MemberPointer C (Function R cc Args e c v r n) pc pv))
           (ReplaceNthArg N NewArgT)
         = map_option
             (\<lambda>Params. reference_to rk (MemberPointer C (Function R cc Params e c v r n) pc pv))
             (parameter_types (Args[N := NewArgT]))"
  using assms
  by (simp add: alias_t_member ReplaceNthType_list_update MemberFunctionTraits_ReplaceArgs_member)

lemma ReplaceNthArg_functor:
  assumes "decls K = [CallOperator (Function R cc Args e c v r n)]"
    and "applicable_member tg cc e" and "N < length Args"
  shows "alias_t tg decls (reference_to rk (ClassType K kc kv)) (ReplaceNthArg N NewArgT)
         = map_option (\<lambda>Params. MemberPointer K (Function R cc Params e c v r n) False False)
             (parameter_types (Args[N := NewArgT]))"
  using assms
  by (simp add: alias_t_functor ReplaceNthType_list_update MemberFunctionTraits_ReplaceArgs_functor)

lemma parameter_type_concrete:
  "parameter_type int_type = Some int_type"
  "parameter_type double_type = Some double_type"
  "parameter_type float_type = Some float_type"
  "parameter_type (Fundamental ''float'' True False) = Some float_type"
  "parameter_type Void = None"
  by (simp_all add: parameter_type_def double_type_def int_type_def float_type_def)

lemma arg_Args_ArgTypes:
  assumes "FunctionTraits tg decls F = Some t"
  shows "arg_Args t = ArgTypes (base t)"
  using assms by (cases rule: FunctionTraits_SomeE) simp_all

lemma ReplaceNthArg_out_of_range_None:
  assumes "FunctionTraits tg decls F = Some t" and "ArgCount (base t) \<le> N"
  shows "alias_t tg decls F (ReplaceNthArg N NewArgT) = None"
  using assms arg_Args_ArgTypes [OF assms(1)]
  by (simp add: alias_t_def FunctionTraits_alias_def ReplaceNthType_list_update ArgCount_def)

lemma IsTraitsFunction_wrap_free:
  "IsTraitsFunction decls (wrap_free rk p (Function R cc Args e False False NoRef n))"
  by (cases rk; cases p)
     (auto simp: IsTraitsFunction_def RemoveRefAndPtr_def wrap_free_def Private_IsFreeFunction_iff)

lemma IsTraitsFunction_ref_MemberPointer:
  "IsTraitsFunction decls (reference_to rk (MemberPointer C (Function R cc Args e c v r n) pc pv))"
  by (cases rk) (auto simp: IsTraitsFunction_def)

lemma IsTraitsFunction_K:
  "IsTraitsFunction K_program (reference_to rk (ClassType ''K'' kc kv))"
  by (cases rk) (auto simp: IsTraitsFunction_def Private_IsFunctor_iff K_program_def)

lemma FreeFunctionTraits_alias_current:
  assumes "applicable_free tg cc e"
    and "F = wrap_free rk p (Function R cc Args e False False NoRef n)"
    and "sets_current_value (base (free_traits F R cc Args e n)) w"
  shows "FreeFunctionTraits_alias tg (free_traits F R cc Args e n) w = Some F"
proof (cases w)
  case AddVariadicArgs
  with assms have "e" "cc = Cdecl" by (auto simp: applicable_variadic)
  with assms AddVariadicArgs show ?thesis
    by (simp add: STDEXT_CC_VARIADIC_def migrated_free_function_type)
next
  case (ReplaceCallingConvention x)
  with assms have x: "x = cc" by simp
  show ?thesis
  proof (cases e)
    case True
    with assms have "cc = Cdecl" by (simp add: applicable_variadic)
    with assms True ReplaceCallingConvention x show ?thesis
      by (simp add: REPLACE_CALLING_CONVENTION_free_def STDEXT_CC_VARIADIC_def
            migrated_free_function_type)
  next
    case False
    with assms(1) have "REPLACE_CALLING_CONVENTION_free tg (free_traits F R cc Args e n) cc
        = Some (free_function_type tg R cc Args e n)"
      by (cases cc) (auto simp: REPLACE_CALLING_CONVENTION_free_def tuple_element_t_def
            applicable_free_def)
    with assms ReplaceCallingConvention x show ?thesis
      by (simp add: migrated_free_function_type)
  qed
next
  case (ReplaceNthArg N T)
  with assms show ?thesis
    by (auto simp: ReplaceNthType_list_update FreeFunctionTraits_ReplaceArgs_free ArgCount_def)
next
  case (ReplaceReturnType X)
  with assms show ?thesis
    by (auto simp: migrated_free_function_type)
qed (use assms in \<open>simp_all add: migrated_free_function_type FreeFunctionTraits_ReplaceArgs_free\<close>)

lemma MemberFunctionTraits_alias_current:
  assumes "applicable_member tg cc e"
    and "F = reference_to rk (MemberPointer C0 f0 pc pv)"
    and "sets_current_value (base (member_traits F R cc C Args e c v r n fo)) w"
  shows "MemberFunctionTraits_alias tg (member_traits F R cc C Args e c v r n fo) w
       = Some (reference_to rk (MemberPointer C (Function R cc Args e c v r n) pc pv))"
proof (cases w)
  case AddVariadicArgs
  with assms have "e" "cc = Cdecl" by (auto simp: applicable_variadic)
  with assms AddVariadicArgs show ?thesis
    by (simp add: STDEXT_CC_VARIADIC_def member_type_of_member)
next
  case (ReplaceCallingConvention x)
  with assms have x: "x = cc" by simp
  have "REPLACE_CALLING_CONVENTION_member tg (member_traits F R cc C Args e c v r n fo) cc
        = Some (member_function_pointer_type tg R cc C Args e c v r n)"
  proof (cases e)
    case True
    with assms have "cc = Cdecl" by (simp add: applicable_variadic)
    with True show ?thesis
      by (simp add: REPLACE_CALLING_CONVENTION_member_def STDEXT_CC_VARIADIC_def)
  next
    case False
    with assms(1) show ?thesis
      by (cases cc) (auto simp: REPLACE_CALLING_CONVENTION_member_def tuple_element_t_def
            applicable_member_def)
  qed
  with assms ReplaceCallingConvention x show ?thesis
    by (simp add: member_function_pointer_type_applicable MigrateCvAndRef_ref_MemberPointer)
next
  case (ReplaceNthArg N T)
  with assms show ?thesis
    by (auto simp: ReplaceNthType_list_update MemberFunctionTraits_ReplaceArgs_member ArgCount_def)
next
  case (ReplaceReturnType X)
  with assms show ?thesis
    by (auto simp: member_type_of_member)
qed (use assms in \<open>auto simp: member_type_of_member MemberFunctionTraits_ReplaceArgs_member\<close>)

text \<open>
  On a function type of the language, handing in the types that the function has is a
  case of setting an attribute to the value it has.
\<close>

lemma sets_current_value_same_types:
  assumes "parameter_types (ArgTypes b) = Some (ArgTypes b)"
  shows "sets_current_value b (ReplaceArgs (ArgTypes b))"
    and "sets_current_value b (ReplaceArgsTuple (ArgTypes b))"
    and "N < ArgCount b \<Longrightarrow> sets_current_value b (ReplaceNthArg N (ArgTypes b ! N))"
  using assms by simp_all

lemma sets_current_value_same_return_type:
  "\<not> is_function_v (ReturnType b) \<Longrightarrow> sets_current_value b (ReplaceReturnType (ReturnType b))"
  by (simp add: declared_return_type_def)

section \<open>Properties of the write traits\<close>




text \<open>
  Claim C3. For an accepted \<open>F\<close> with \<open>ArgCount\<close> parameters, \<open>ReplaceNthArg\<close> at an
  index \<open>N\<close> with \<open>ArgCount \<le> N\<close> is the failed \<open>static_assert\<close> of \<open>ReplaceNthType\<close>
  (so at every index when there is no parameter); and whenever \<open>ReplaceNthArg\<close> gives a
  type, the index was below \<open>ArgCount\<close> and that type has as many parameters as \<open>F\<close>.
\<close>

theorem ReplaceNthArg_out_of_range:
  assumes "FunctionTraits tg decls F = Some t" and "IsTraitsFunction decls F"
  shows "(ArgCount (base t) \<le> N \<longrightarrow> alias_t tg decls F (ReplaceNthArg N NewArgT) = None) \<and>
         (\<forall>F' t'. alias_t tg decls F (ReplaceNthArg N NewArgT) = Some F' \<and>
                   FunctionTraits tg decls F' = Some t' \<longrightarrow>
                   N < ArgCount (base t) \<and> ArgCount (base t') = ArgCount (base t))"
proof (intro conjI allI impI)
  assume "ArgCount (base t) \<le> N"
  with assms(1) show "alias_t tg decls F (ReplaceNthArg N NewArgT) = None"
    by (rule ReplaceNthArg_out_of_range_None)
next
  fix F' t'
  assume r: "alias_t tg decls F (ReplaceNthArg N NewArgT) = Some F' \<and>
    FunctionTraits tg decls F' = Some t'"
  show "N < ArgCount (base t)"
  proof (rule ccontr)
    assume "\<not> N < ArgCount (base t)"
    then have "alias_t tg decls F (ReplaceNthArg N NewArgT) = None"
      using ReplaceNthArg_out_of_range_None [OF assms(1)] by simp
    with r show False by simp
  qed
  then have N: "N < length (ArgTypes (base t))"
    by (simp add: ArgCount_def)
  from assms show "ArgCount (base t') = ArgCount (base t)"
  proof (cases rule: acceptable_SomeE)
    case (free_case rk p R cc Args e n)
    with r N obtain Params where Params: "parameter_types (Args[N := NewArgT]) = Some Params"
      and F': "F' = wrap_free rk p (Function R cc Params e False False NoRef n)"
      by (auto simp: ReplaceNthArg_free)
    from parameter_types_length [OF Params] r free_case show ?thesis
      by (auto simp: F' FunctionTraits_free ArgCount_def)
  next
    case (member_case rk C pc pv R cc Args e c v r n)
    with r N obtain Params where Params: "parameter_types (Args[N := NewArgT]) = Some Params"
      and F': "F' = reference_to rk (MemberPointer C (Function R cc Params e c v r n) pc pv)"
      by (auto simp: ReplaceNthArg_member)
    from parameter_types_length [OF Params] r member_case show ?thesis
      by (auto simp: F' FunctionTraits_member ArgCount_def)
  next
    case (functor_case rk K kc kv R cc Args e c v r n)
    with r N obtain Params where Params: "parameter_types (Args[N := NewArgT]) = Some Params"
      and F': "F' = MemberPointer K (Function R cc Params e c v r n) False False"
      by (auto simp: ReplaceNthArg_functor)
    from parameter_types_length [OF Params] r functor_case
      FunctionTraits_member [of tg decls NoRef K R cc Params e c v r n False False]
    show ?thesis
      by (auto simp: F' ArgCount_def)
  qed
qed

theorem ReplaceNthArg_out_of_range_witness:
  "alias_t target_64 K_program (ClassType ''K'' False False) (ReplaceNthArg 1 float_type) = None \<and>
   alias_t target_64 K_program (ClassType ''K'' False False) (ReplaceNthArg 7 float_type) = None \<and>
   alias_t target_64 K_program (Function Void Cdecl [] False False False NoRef False)
      (ReplaceNthArg 0 float_type) = None \<and>
   (\<exists>F' t'. alias_t target_64 K_program (ClassType ''K'' False False) (ReplaceNthArg 0 float_type)
              = Some F' \<and>
            FunctionTraits target_64 K_program F' = Some t' \<and> ArgCount (base t') = 1)"
proof -
  let ?K = "ClassType ''K'' False False"
  let ?f = "Function Void Cdecl [] False False False NoRef False"
  have k: "FunctionTraits target_64 K_program ?K
     = Some (member_traits (MemberPointer ''K'' K_call_operator False False)
             Void Cdecl ''K'' [int_type] False True False NoRef True True)"
    using K_functor [of target_64 NoRef False False] by simp
  have ka: "IsTraitsFunction K_program ?K"
    using IsTraitsFunction_K [of NoRef False False] by simp
  have f: "FunctionTraits target_64 K_program ?f = Some (free_traits ?f Void Cdecl [] False False)"
    using FunctionTraits_free [of target_64 K_program NoRef None Void Cdecl "[]" False False False NoRef False]
    by (simp add: wrap_free_def applicable_free_def)
  have fa: "IsTraitsFunction K_program ?f"
    using IsTraitsFunction_wrap_free [of K_program NoRef None] by (simp add: wrap_free_def)
  let ?R = "MemberPointer ''K'' (Function Void Cdecl [float_type] False True False NoRef True)
      False False"
  have d: "K_program ''K'' = [CallOperator (Function Void Cdecl [int_type] False True False NoRef True)]"
    by (simp add: K_program_def K_call_operator_def)
  have a: "applicable_member target_64 Cdecl False"
    by (simp add: applicable_member_def)
  have r: "alias_t target_64 K_program ?K (ReplaceNthArg 0 float_type) = Some ?R"
    using alias_t_functor [where decls = K_program and K = "''K''", OF d a, of NoRef False False
        "ReplaceNthArg 0 float_type"]
      MemberFunctionTraits_ReplaceArgs_functor [OF a]
    by (simp add: ReplaceNthType_list_update parameter_type_concrete)
  have rt: "FunctionTraits target_64 K_program ?R
     = Some (member_traits ?R Void Cdecl ''K'' [float_type] False True False NoRef True False)"
    using FunctionTraits_member [of target_64 K_program NoRef] a by simp
  have "ArgCount (base (member_traits ?R Void Cdecl ''K'' [float_type] False True False NoRef True False))
      = 1"
    using ReplaceNthArg_out_of_range [OF k ka, of 0 float_type] r rt
    by (simp add: ArgCount_def)
  with r rt have "\<exists>F' t'. alias_t target_64 K_program ?K (ReplaceNthArg 0 float_type) = Some F' \<and>
            FunctionTraits target_64 K_program F' = Some t' \<and> ArgCount (base t') = 1"
    by blast
  then show ?thesis
    using ReplaceNthArg_out_of_range [OF k ka, of 1 float_type]
      ReplaceNthArg_out_of_range [OF k ka, of 7 float_type]
      ReplaceNthArg_out_of_range [OF f fa, of 0 float_type]
    by (simp add: ArgCount_def)
qed

text \<open>
  Claim C4. On an input that is classified as a free function (a free function, or a
  pointer or reference to one), each of \<open>AddConst\<close>, \<open>RemoveConst\<close>, \<open>AddVolatile\<close>,
  \<open>RemoveVolatile\<close>, \<open>AddCV\<close>, \<open>RemoveCV\<close>, \<open>AddLValueReference\<close>,
  \<open>AddRValueReference\<close>, \<open>RemoveReference\<close> and \<open>ReplaceClass\<close> is the input type
  itself, not a failure, and so is \<open>ReplaceCallingConvention\<close> with \<open>Thiscall\<close>.
\<close>

theorem member_only_on_free_function:
  assumes "FunctionTraits tg decls F = Some t" and "IsFreeFunction (base t)"
    and "member_only w \<or> w = ReplaceCallingConvention Thiscall"
  shows "alias_t tg decls F w = Some F"
  using assms(1)
proof (cases rule: FunctionTraits_SomeE)
  case (free_case rk p R cc Args e n)
  have th: "FreeFunctionTraits_alias tg t (ReplaceCallingConvention Thiscall) = Some F"
  proof (cases e)
    case True
    with free_case have "cc = Cdecl" by (simp add: applicable_variadic)
    with True free_case show ?thesis
      by (simp add: REPLACE_CALLING_CONVENTION_free_def STDEXT_CC_VARIADIC_def
            migrated_free_function_type)
  next
    case False
    with free_case show ?thesis
      by (simp add: REPLACE_CALLING_CONVENTION_free_def tuple_element_t_def
            migrated_free_function_type)
  qed
  have "FreeFunctionTraits_alias tg t w = Some F"
    using assms(3) th free_case(3) by (cases w) auto
  with assms(1) free_case show ?thesis
    by (simp add: alias_t_def FunctionTraits_alias_def)
next
  case (member_case C R cc Args e c v r n)
  with assms(2) show ?thesis
    by (simp add: IsFreeFunction_def IsMemberFunction_def)
next
  case (functor_case rk K kc kv R cc Args e c v r n)
  with assms(2) show ?thesis
    by (simp add: IsFreeFunction_def IsMemberFunction_def)
qed

theorem member_only_on_free_function_witness:
  "alias_t target_32 K_program
     (LValueReference (Pointer (Function int_type Stdcall [double_type] False False False NoRef True)
        True False)) AddConst
   = Some (LValueReference (Pointer (Function int_type Stdcall [double_type] False False False NoRef True)
        True False)) \<and>
   alias_t target_32 K_program
     (LValueReference (Pointer (Function int_type Stdcall [double_type] False False False NoRef True)
        True False)) (ReplaceClass ''K'')
   = Some (LValueReference (Pointer (Function int_type Stdcall [double_type] False False False NoRef True)
        True False)) \<and>
   alias_t target_32 K_program
     (LValueReference (Pointer (Function int_type Stdcall [double_type] False False False NoRef True)
        True False)) (ReplaceCallingConvention Thiscall)
   = Some (LValueReference (Pointer (Function int_type Stdcall [double_type] False False False NoRef True)
        True False)) \<and>
   alias_t target_64 K_program int_double_int RemoveReference = Some int_double_int"
proof -
  let ?F = "LValueReference (Pointer (Function int_type Stdcall [double_type] False False False NoRef True)
        True False)"
  have t: "FunctionTraits target_32 K_program ?F
     = Some (free_traits ?F int_type Stdcall [double_type] False True)"
    using FunctionTraits_free [of target_32 K_program LValue "Some (True, False)" int_type Stdcall
        "[double_type]" False False False NoRef True]
    by (simp add: wrap_free_def applicable_free_def target_32_def)
  have u: "FunctionTraits target_64 K_program int_double_int
     = Some (free_traits int_double_int int_type Cdecl [double_type, int_type] False False)"
    using int_double_int_free [of target_64 K_program NoRef None] by (simp add: wrap_free_def)
  show ?thesis
    using member_only_on_free_function [OF t, of AddConst]
      member_only_on_free_function [OF t, of "ReplaceClass ''K''"]
      member_only_on_free_function [OF t, of "ReplaceCallingConvention Thiscall"]
      member_only_on_free_function [OF u, of RemoveReference]
    by (simp add: IsFreeFunction_def IsMemberFunction_def)
qed

text \<open>
  Claim C5, as amended. For an accepted \<open>F\<close>, a write trait that sets an attribute to the
  value it has in the classification of \<open>F\<close> gives the type \<open>F\<close> itself when \<open>F\<close> is not a
  functor; when \<open>F\<close> is a functor or a reference to one, it gives the member \<open>Type\<close> of the
  classification, that is \<open>decltype(&F::operator())\<close>.
\<close>

theorem sets_current_value_identity:
  assumes "FunctionTraits tg decls F = Some t" and "IsTraitsFunction decls F"
    and "sets_current_value (base t) w"
  shows "alias_t tg decls F w = Some (if IsFunctor (base t) then Type (base t) else F)"
  using assms(1,2)
proof (cases rule: acceptable_SomeE)
  case (free_case rk p R cc Args e n)
  have "FreeFunctionTraits_alias tg (free_traits F R cc Args e n) w = Some F"
    using free_case(2,1) assms(3) [unfolded free_case(3)]
    by (rule FreeFunctionTraits_alias_current)
  with assms(1) free_case(3) show ?thesis
    by (simp add: alias_t_def FunctionTraits_alias_def)
next
  case (member_case rk C pc pv R cc Args e c v r n)
  have "MemberFunctionTraits_alias tg (member_traits F R cc C Args e c v r n False) w
      = Some (reference_to rk (MemberPointer C (Function R cc Args e c v r n) pc pv))"
    using member_case(2,1) assms(3) [unfolded member_case(3)]
    by (rule MemberFunctionTraits_alias_current)
  with assms(1) member_case(1,3) show ?thesis
    by (simp add: alias_t_def FunctionTraits_alias_def)
next
  case (functor_case rk K kc kv R cc Args e c v r n)
  let ?P = "MemberPointer K (Function R cc Args e c v r n) False False"
  have P: "?P = reference_to NoRef ?P" by simp
  have "MemberFunctionTraits_alias tg (member_traits ?P R cc K Args e c v r n True) w
      = Some (reference_to NoRef ?P)"
    using functor_case(3) P assms(3) [unfolded functor_case(4)]
    by (rule MemberFunctionTraits_alias_current)
  with assms(1) functor_case(4) show ?thesis
    by (simp add: alias_t_def FunctionTraits_alias_def)
qed

theorem sets_current_value_identity_witness:
  "alias_t target_32 K_program
     (RValueReference (MemberPointer ''K''
        (Function Void Thiscall [int_type, int_type] False True False LValue False) True False))
     AddConst
   = Some (RValueReference (MemberPointer ''K''
        (Function Void Thiscall [int_type, int_type] False True False LValue False) True False)) \<and>
   alias_t target_32 K_program
     (RValueReference (MemberPointer ''K''
        (Function Void Thiscall [int_type, int_type] False True False LValue False) True False))
     (ReplaceCallingConvention Thiscall)
   = Some (RValueReference (MemberPointer ''K''
        (Function Void Thiscall [int_type, int_type] False True False LValue False) True False)) \<and>
   alias_t target_64 K_program (Pointer int_double_int False False) RemoveNoexcept
   = Some (Pointer int_double_int False False) \<and>
   alias_t target_64 K_program (ClassType ''K'' False False) AddNoexcept
   = Some (MemberPointer ''K'' K_call_operator False False)"
proof -
  let ?M = "RValueReference (MemberPointer ''K''
        (Function Void Thiscall [int_type, int_type] False True False LValue False) True False)"
  let ?P = "Pointer int_double_int False False"
  let ?K = "ClassType ''K'' False False"
  have m: "FunctionTraits target_32 K_program ?M
     = Some (member_traits ?M Void Thiscall ''K'' [int_type, int_type] False True False LValue False False)"
    using FunctionTraits_member [of target_32 K_program RValue "''K''" Void Thiscall
        "[int_type, int_type]" False True False LValue False True False]
    by (simp add: applicable_member_def target_32_def)
  have ma: "IsTraitsFunction K_program ?M"
    using IsTraitsFunction_ref_MemberPointer [of K_program RValue] by simp
  have p: "FunctionTraits target_64 K_program ?P
     = Some (free_traits ?P int_type Cdecl [double_type, int_type] False False)"
    using int_double_int_free [of target_64 K_program NoRef "Some (False, False)"]
    by (simp add: wrap_free_def)
  have pa: "IsTraitsFunction K_program ?P"
    using IsTraitsFunction_wrap_free [of K_program NoRef "Some (False, False)"]
    by (simp add: wrap_free_def int_double_int_def)
  have k: "FunctionTraits target_64 K_program ?K
     = Some (member_traits (MemberPointer ''K'' K_call_operator False False)
             Void Cdecl ''K'' [int_type] False True False NoRef True True)"
    using K_functor [of target_64 NoRef False False] by simp
  have ka: "IsTraitsFunction K_program ?K"
    using IsTraitsFunction_K [of NoRef False False] by simp
  show ?thesis
    using sets_current_value_identity [OF m ma, of AddConst]
      sets_current_value_identity [OF m ma, of "ReplaceCallingConvention Thiscall"]
      sets_current_value_identity [OF p pa, of RemoveNoexcept]
      sets_current_value_identity [OF k ka, of AddNoexcept]
    by simp
qed

text \<open>
  The claim C5 as it was stated, that the resulting type is identical to the input, fails
  on the functor \<open>K\<close>, whose call operator is \<open>noexcept\<close> and \<open>const\<close>: \<open>AddNoexcept\<close> and
  \<open>AddConst\<close> give the pointer to member function, not the class \<open>K\<close>.
\<close>

theorem sets_current_value_functor:
  "IsTraitsFunction K_program (ClassType ''K'' False False) \<and>
   map_option (\<lambda>t. sets_current_value (base t) AddNoexcept \<and> sets_current_value (base t) AddConst)
     (FunctionTraits target_64 K_program (ClassType ''K'' False False)) = Some True \<and>
   alias_t target_64 K_program (ClassType ''K'' False False) AddNoexcept
     = Some (MemberPointer ''K'' K_call_operator False False) \<and>
   alias_t target_64 K_program (ClassType ''K'' False False) AddConst
     = Some (MemberPointer ''K'' K_call_operator False False) \<and>
   MemberPointer ''K'' K_call_operator False False \<noteq> ClassType ''K'' False False"
proof -
  have d: "K_program ''K'' = [CallOperator (Function Void Cdecl [int_type] False True False NoRef True)]"
    by (simp add: K_program_def K_call_operator_def)
  have a: "applicable_member target_64 Cdecl False"
    by (simp add: applicable_member_def)
  show ?thesis
    using IsTraitsFunction_K [of NoRef False False] K_functor [of target_64 NoRef False False]
      alias_t_functor [where decls = K_program and K = "''K''", OF d a, of NoRef False False AddNoexcept]
      alias_t_functor [where decls = K_program and K = "''K''", OF d a, of NoRef False False AddConst]
      member_type_of_functor [OF a]
    by (simp add: K_call_operator_def)
qed

end
